theory Spec2Isabelle
  imports Main
begin

section \<open>The object store\<close>

text \<open>
  The program is a set of TypeScript classes whose instances refer to each other: a
  command object holds a reference to its device, the remote control holds references to
  command objects, and the same command object may sit in several slots at once. Objects
  therefore live in a store, one list per class family, and a reference is the position
  of the object in its list. \<open>new\<close> appends to the list and returns the new position.
  \<open>console.log\<close> appends one line to \<open>console\<close>.
\<close>

type_synonym ref = nat

record Light =
  location :: string

record CeilingFan =
  location :: string
  speed :: int

text \<open>
  The classes that implement \<open>Command\<close>, each with its fields. \<open>BaseCommand\<close> is an
  instance of the class \<open>Command\<close> itself, whose two methods have empty bodies. The four
  ceiling fan commands carry \<open>ceilingFan\<close> and \<open>prevSpeed\<close>; \<open>MacroCommand\<close> carries the
  array \<open>commands\<close>. A \<open>Stereo\<close> has no fields, so a reference to it is all there is.
\<close>

datatype Command =
    BaseCommand
  | LightOffCommand ref
  | StereoOnWithCDCommand ref
  | NoCommand
  | CeilingFanMediumCommand (ceilingFan: ref) (prevSpeed: int)
  | CeilingFanHighCommand (ceilingFan: ref) (prevSpeed: int)
  | CeilingFanLowCommand (ceilingFan: ref) (prevSpeed: int)
  | CeilingFanOffCommand (ceilingFan: ref) (prevSpeed: int)
  | MacroCommand "ref list"

record world =
  lights :: "Light list"
  fans :: "CeilingFan list"
  cmds :: "Command list"
  console :: "string list"

definition empty_world :: world where
  "empty_world = \<lparr>lights = [], fans = [], cmds = [], console = []\<rparr>"

definition console_log :: "string \<Rightarrow> world \<Rightarrow> world" where
  "console_log s w = w\<lparr>console := console w @ [s]\<rparr>"

text \<open>Decimal rendering of an integer, as a template literal renders an integral number.\<close>

function show_nat :: "nat \<Rightarrow> string" where
  "show_nat n = (if n < 10 then [''0123456789'' ! n]
                 else show_nat (n div 10) @ [''0123456789'' ! (n mod 10)])"
  by pat_completeness auto
termination
  by (relation "measure (\<lambda>n. n)") auto

definition show_int :: "int \<Rightarrow> string" where
  "show_int i = (if i < 0 then ''-'' @ show_nat (nat (- i)) else show_nat (nat i))"

section \<open>Devices\<close>

subsection \<open>Light\<close>

definition Light_new :: "string \<Rightarrow> world \<Rightarrow> ref \<times> world" where
  "Light_new loc w = (length (lights w), w\<lparr>lights := lights w @ [\<lparr>Light.location = loc\<rparr>]\<rparr>)"

definition Light_off :: "ref \<Rightarrow> world \<Rightarrow> world" where
  "Light_off l w = console_log (Light.location (lights w ! l) @ '' light is off'') w"

definition Light_on :: "ref \<Rightarrow> world \<Rightarrow> world" where
  "Light_on l w = console_log (Light.location (lights w ! l) @ '' light is on'') w"

subsection \<open>Stereo\<close>

definition Stereo_on :: "ref \<Rightarrow> world \<Rightarrow> world" where
  "Stereo_on s w = console_log ''Stereo is on'' w"

definition Stereo_off :: "ref \<Rightarrow> world \<Rightarrow> world" where
  "Stereo_off s w = console_log ''Stereo is off'' w"

definition Stereo_setCD :: "ref \<Rightarrow> world \<Rightarrow> world" where
  "Stereo_setCD s w = console_log ''Stereo is set for CD input'' w"

definition Stereo_setVolume :: "ref \<Rightarrow> int \<Rightarrow> world \<Rightarrow> world" where
  "Stereo_setVolume s volume w = console_log (''Stereo volume set to '' @ show_int volume) w"

subsection \<open>CeilingFan\<close>

definition CeilingFan_HIGH :: int where "CeilingFan_HIGH = 3"
definition CeilingFan_MEDIUM :: int where "CeilingFan_MEDIUM = 2"
definition CeilingFan_LOW :: int where "CeilingFan_LOW = 1"
definition CeilingFan_OFF :: int where "CeilingFan_OFF = 0"

definition CeilingFan_new :: "string \<Rightarrow> world \<Rightarrow> ref \<times> world" where
  "CeilingFan_new loc w =
     (length (fans w),
      w\<lparr>fans := fans w @ [\<lparr>CeilingFan.location = loc, speed = CeilingFan_OFF\<rparr>]\<rparr>)"

definition CeilingFan_high :: "ref \<Rightarrow> world \<Rightarrow> world" where
  "CeilingFan_high f w =
     (let w1 = w\<lparr>fans := (fans w)[f := (fans w ! f)\<lparr>speed := CeilingFan_HIGH\<rparr>]\<rparr>
      in console_log (CeilingFan.location (fans w1 ! f) @ '' ceiling fan is on high'') w1)"

definition CeilingFan_medium :: "ref \<Rightarrow> world \<Rightarrow> world" where
  "CeilingFan_medium f w =
     (let w1 = w\<lparr>fans := (fans w)[f := (fans w ! f)\<lparr>speed := CeilingFan_MEDIUM\<rparr>]\<rparr>
      in console_log (CeilingFan.location (fans w1 ! f) @ '' ceiling fan is on medium'') w1)"

definition CeilingFan_low :: "ref \<Rightarrow> world \<Rightarrow> world" where
  "CeilingFan_low f w =
     (let w1 = w\<lparr>fans := (fans w)[f := (fans w ! f)\<lparr>speed := CeilingFan_LOW\<rparr>]\<rparr>
      in console_log (CeilingFan.location (fans w1 ! f) @ '' ceiling fan is on low'') w1)"

definition CeilingFan_off :: "ref \<Rightarrow> world \<Rightarrow> world" where
  "CeilingFan_off f w =
     (let w1 = w\<lparr>fans := (fans w)[f := (fans w ! f)\<lparr>speed := CeilingFan_OFF\<rparr>]\<rparr>
      in console_log (CeilingFan.location (fans w1 ! f) @ '' ceiling fan is off'') w1)"

definition CeilingFan_getSpeed :: "ref \<Rightarrow> world \<Rightarrow> int" where
  "CeilingFan_getSpeed f w = speed (fans w ! f)"

section \<open>Commands\<close>

subsection \<open>Constructors\<close>

definition new_Command :: "Command \<Rightarrow> world \<Rightarrow> ref \<times> world" where
  "new_Command c w = (length (cmds w), w\<lparr>cmds := cmds w @ [c]\<rparr>)"

definition LightOffCommand_new :: "ref \<Rightarrow> world \<Rightarrow> ref \<times> world" where
  "LightOffCommand_new light w = new_Command (LightOffCommand light) w"

definition StereoOnWithCDCommand_new :: "ref \<Rightarrow> world \<Rightarrow> ref \<times> world" where
  "StereoOnWithCDCommand_new stereo w = new_Command (StereoOnWithCDCommand stereo) w"

definition NoCommand_new :: "world \<Rightarrow> ref \<times> world" where
  "NoCommand_new w = new_Command NoCommand w"

definition CeilingFanMediumCommand_new :: "ref \<Rightarrow> world \<Rightarrow> ref \<times> world" where
  "CeilingFanMediumCommand_new fan w =
     new_Command (CeilingFanMediumCommand fan (CeilingFan_getSpeed fan w)) w"

definition CeilingFanHighCommand_new :: "ref \<Rightarrow> world \<Rightarrow> ref \<times> world" where
  "CeilingFanHighCommand_new fan w =
     new_Command (CeilingFanHighCommand fan (CeilingFan_getSpeed fan w)) w"

definition CeilingFanLowCommand_new :: "ref \<Rightarrow> world \<Rightarrow> ref \<times> world" where
  "CeilingFanLowCommand_new fan w =
     new_Command (CeilingFanLowCommand fan (CeilingFan_getSpeed fan w)) w"

definition CeilingFanOffCommand_new :: "ref \<Rightarrow> world \<Rightarrow> ref \<times> world" where
  "CeilingFanOffCommand_new fan w =
     new_Command (CeilingFanOffCommand fan (CeilingFan_getSpeed fan w)) w"

definition MacroCommand_new :: "ref list \<Rightarrow> world \<Rightarrow> ref \<times> world" where
  "MacroCommand_new commands w = new_Command (MacroCommand commands) w"

subsection \<open>The method bodies, class by class\<close>

definition LightOffCommand_execute :: "ref \<Rightarrow> world \<Rightarrow> world" where
  "LightOffCommand_execute light w = Light_off light w"

definition LightOffCommand_undo :: "ref \<Rightarrow> world \<Rightarrow> world" where
  "LightOffCommand_undo light w = Light_on light w"

definition StereoOnWithCDCommand_execute :: "ref \<Rightarrow> world \<Rightarrow> world" where
  "StereoOnWithCDCommand_execute stereo w =
     Stereo_setVolume stereo 11 (Stereo_setCD stereo (Stereo_on stereo w))"

definition StereoOnWithCDCommand_undo :: "ref \<Rightarrow> world \<Rightarrow> world" where
  "StereoOnWithCDCommand_undo stereo w = Stereo_off stereo w"

text \<open>
  \<open>execute\<close> of a fan command first stores the fan's speed in the field \<open>prevSpeed\<close> of
  the command object \<open>this\<close>, then moves the fan. \<open>undo\<close> reads \<open>prevSpeed\<close> and goes
  through four tests; when none matches nothing happens.
\<close>

definition CeilingFanMediumCommand_execute :: "ref \<Rightarrow> ref \<Rightarrow> world \<Rightarrow> world" where
  "CeilingFanMediumCommand_execute this fan w =
     CeilingFan_medium fan
       (w\<lparr>cmds := (cmds w)[this :=
             CeilingFanMediumCommand fan (CeilingFan_getSpeed fan w)]\<rparr>)"

definition CeilingFanMediumCommand_undo :: "ref \<Rightarrow> int \<Rightarrow> world \<Rightarrow> world" where
  "CeilingFanMediumCommand_undo fan prev w =
     (if prev = CeilingFan_HIGH then CeilingFan_high fan w
      else if prev = CeilingFan_MEDIUM then CeilingFan_medium fan w
      else if prev = CeilingFan_LOW then CeilingFan_low fan w
      else if prev = CeilingFan_OFF then CeilingFan_off fan w
      else w)"

definition CeilingFanHighCommand_execute :: "ref \<Rightarrow> ref \<Rightarrow> world \<Rightarrow> world" where
  "CeilingFanHighCommand_execute this fan w =
     CeilingFan_high fan
       (w\<lparr>cmds := (cmds w)[this :=
             CeilingFanHighCommand fan (CeilingFan_getSpeed fan w)]\<rparr>)"

definition CeilingFanHighCommand_undo :: "ref \<Rightarrow> int \<Rightarrow> world \<Rightarrow> world" where
  "CeilingFanHighCommand_undo fan prev w =
     (if prev = CeilingFan_HIGH then CeilingFan_high fan w
      else if prev = CeilingFan_MEDIUM then CeilingFan_medium fan w
      else if prev = CeilingFan_LOW then CeilingFan_low fan w
      else if prev = CeilingFan_OFF then CeilingFan_off fan w
      else w)"

definition CeilingFanLowCommand_execute :: "ref \<Rightarrow> ref \<Rightarrow> world \<Rightarrow> world" where
  "CeilingFanLowCommand_execute this fan w =
     CeilingFan_low fan
       (w\<lparr>cmds := (cmds w)[this :=
             CeilingFanLowCommand fan (CeilingFan_getSpeed fan w)]\<rparr>)"

definition CeilingFanLowCommand_undo :: "ref \<Rightarrow> int \<Rightarrow> world \<Rightarrow> world" where
  "CeilingFanLowCommand_undo fan prev w =
     (if prev = CeilingFan_HIGH then CeilingFan_high fan w
      else if prev = CeilingFan_MEDIUM then CeilingFan_medium fan w
      else if prev = CeilingFan_LOW then CeilingFan_low fan w
      else if prev = CeilingFan_OFF then CeilingFan_off fan w
      else w)"

definition CeilingFanOffCommand_execute :: "ref \<Rightarrow> ref \<Rightarrow> world \<Rightarrow> world" where
  "CeilingFanOffCommand_execute this fan w =
     CeilingFan_off fan
       (w\<lparr>cmds := (cmds w)[this :=
             CeilingFanOffCommand fan (CeilingFan_getSpeed fan w)]\<rparr>)"

definition CeilingFanOffCommand_undo :: "ref \<Rightarrow> int \<Rightarrow> world \<Rightarrow> world" where
  "CeilingFanOffCommand_undo fan prev w =
     (if prev = CeilingFan_HIGH then CeilingFan_high fan w
      else if prev = CeilingFan_MEDIUM then CeilingFan_medium fan w
      else if prev = CeilingFan_LOW then CeilingFan_low fan w
      else if prev = CeilingFan_OFF then CeilingFan_off fan w
      else w)"

subsection \<open>Dynamic dispatch\<close>

text \<open>
  \<open>Array.prototype.forEach\<close> with a callback that changes the world: the elements are
  visited from index 0 upwards, each call starting in the world the previous one left.
  A call that does not return (\<open>None\<close>) ends the iteration there.
\<close>

fun forEach :: "'a list \<Rightarrow> ('a \<Rightarrow> 's \<Rightarrow> 's option) \<Rightarrow> 's \<Rightarrow> 's option" where
  "forEach [] f s = Some s"
| "forEach (x # xs) f s = Option.bind (f x s) (forEach xs f)"

lemma forEach_mono [partial_function_mono]:
  assumes "\<And>x s. mono_option (\<lambda>f. B f x s)"
  shows "mono_option (\<lambda>f. forEach xs (B f) s)"
proof (induction xs arbitrary: s)
  case Nil
  show ?case by (simp add: option.const_mono)
next
  case (Cons x xs)
  show ?case by (simp, intro bind_mono assms Cons.IH)
qed

text \<open>
  \<open>c.execute()\<close> and \<open>c.undo()\<close> for a command reference \<open>c\<close>: the class of the object
  in the store selects the body. A macro command calls back into \<open>execute\<close> (or \<open>undo\<close>)
  for each element of its array; nothing in the classes prevents an array from holding,
  directly or through other macros, the macro itself, and then the call never returns:
  the result is \<open>None\<close>. In a layered store every call returns (\<open>layered_returns\<close> below).
\<close>

partial_function (option) execute :: "ref \<Rightarrow> world \<Rightarrow> world option" where
  "execute this w =
     (case cmds w ! this of
        BaseCommand \<Rightarrow> Some w
      | LightOffCommand light \<Rightarrow> Some (LightOffCommand_execute light w)
      | StereoOnWithCDCommand stereo \<Rightarrow> Some (StereoOnWithCDCommand_execute stereo w)
      | NoCommand \<Rightarrow> Some w
      | CeilingFanMediumCommand fan prev \<Rightarrow>
          Some (CeilingFanMediumCommand_execute this fan w)
      | CeilingFanHighCommand fan prev \<Rightarrow>
          Some (CeilingFanHighCommand_execute this fan w)
      | CeilingFanLowCommand fan prev \<Rightarrow>
          Some (CeilingFanLowCommand_execute this fan w)
      | CeilingFanOffCommand fan prev \<Rightarrow>
          Some (CeilingFanOffCommand_execute this fan w)
      | MacroCommand commands \<Rightarrow> forEach commands execute w)"

partial_function (option) undo :: "ref \<Rightarrow> world \<Rightarrow> world option" where
  "undo this w =
     (case cmds w ! this of
        BaseCommand \<Rightarrow> Some w
      | LightOffCommand light \<Rightarrow> Some (LightOffCommand_undo light w)
      | StereoOnWithCDCommand stereo \<Rightarrow> Some (StereoOnWithCDCommand_undo stereo w)
      | NoCommand \<Rightarrow> Some w
      | CeilingFanMediumCommand fan prev \<Rightarrow>
          Some (CeilingFanMediumCommand_undo fan prev w)
      | CeilingFanHighCommand fan prev \<Rightarrow>
          Some (CeilingFanHighCommand_undo fan prev w)
      | CeilingFanLowCommand fan prev \<Rightarrow>
          Some (CeilingFanLowCommand_undo fan prev w)
      | CeilingFanOffCommand fan prev \<Rightarrow>
          Some (CeilingFanOffCommand_undo fan prev w)
      | MacroCommand commands \<Rightarrow> forEach commands undo w)"

section \<open>The remote controls\<close>

text \<open>
  A JavaScript array of references, for integral indices: \<open>alength\<close> is its \<open>length\<close>,
  \<open>aget a i\<close> is \<open>a[i]\<close> with \<open>None\<close> for \<open>undefined\<close>. An assignment \<open>a[i] = v\<close> never
  fails: it stores \<open>v\<close> under \<open>i\<close>, and when \<open>i\<close> is an array index (from 0 to
  \<open>2^32 - 2\<close>) at or beyond the length, the length becomes \<open>i + 1\<close>.
\<close>

record jsarray =
  alength :: nat
  aget :: "int \<Rightarrow> ref option"

definition empty_array :: jsarray where
  "empty_array = \<lparr>alength = 0, aget = (\<lambda>i. None)\<rparr>"

definition aset :: "jsarray \<Rightarrow> int \<Rightarrow> ref \<Rightarrow> jsarray" where
  "aset a i v =
     \<lparr>alength = (if 0 \<le> i \<and> i < 2 ^ 32 - 1 then max (alength a) (nat i + 1) else alength a),
      aget = (aget a)(i := Some v)\<rparr>"

datatype error = TypeError

subsection \<open>RemoteControl\<close>

record RemoteControl =
  onCommands :: jsarray
  offCommands :: jsarray

definition RemoteControl_new :: RemoteControl where
  "RemoteControl_new =
     \<lparr>RemoteControl.onCommands = empty_array, RemoteControl.offCommands = empty_array\<rparr>"

definition RemoteControl_setCommand ::
  "int \<Rightarrow> ref \<Rightarrow> ref \<Rightarrow> RemoteControl \<Rightarrow> RemoteControl" where
  "RemoteControl_setCommand slot onCommand offCommand this =
     this\<lparr>RemoteControl.onCommands := aset (RemoteControl.onCommands this) slot onCommand,
          RemoteControl.offCommands := aset (RemoteControl.offCommands this) slot offCommand\<rparr>"

definition RemoteControl_onButtonWasPushed ::
  "int \<Rightarrow> RemoteControl \<Rightarrow> world \<Rightarrow> (error + world) option" where
  "RemoteControl_onButtonWasPushed slot this w =
     (case aget (RemoteControl.onCommands this) slot of
        None \<Rightarrow> Some (Inl TypeError)
      | Some c \<Rightarrow> map_option Inr (execute c w))"

definition RemoteControl_offButtonWasPushed ::
  "int \<Rightarrow> RemoteControl \<Rightarrow> world \<Rightarrow> (error + world) option" where
  "RemoteControl_offButtonWasPushed slot this w =
     (case aget (RemoteControl.offCommands this) slot of
        None \<Rightarrow> Some (Inl TypeError)
      | Some c \<Rightarrow> map_option Inr (execute c w))"

subsection \<open>RemoteLoaderWithUndo\<close>

record RemoteLoaderWithUndo =
  onCommands :: jsarray
  offCommands :: jsarray
  undoCommand :: ref

text \<open>The constructor's loop, from \<open>i\<close> on: two new \<open>NoCommand\<close> objects for each slot below 7.\<close>

function RemoteLoaderWithUndo_fill ::
  "int \<Rightarrow> jsarray \<Rightarrow> jsarray \<Rightarrow> world \<Rightarrow> jsarray \<times> jsarray \<times> world" where
  "RemoteLoaderWithUndo_fill i ons offs w =
     (if i < 7 then
        (let (c1, w1) = NoCommand_new w;
             ons1 = aset ons i c1;
             (c2, w2) = NoCommand_new w1;
             offs1 = aset offs i c2
         in RemoteLoaderWithUndo_fill (i + 1) ons1 offs1 w2)
      else (ons, offs, w))"
  by pat_completeness auto
termination
  by (relation "measure (\<lambda>(i, ons, offs, w). nat (7 - i))") auto

definition RemoteLoaderWithUndo_new :: "world \<Rightarrow> RemoteLoaderWithUndo \<times> world" where
  "RemoteLoaderWithUndo_new w =
     (let (ons, offs, w1) = RemoteLoaderWithUndo_fill 0 empty_array empty_array w;
          (u, w2) = NoCommand_new w1
      in (\<lparr>onCommands = ons, offCommands = offs, undoCommand = u\<rparr>, w2))"

definition setCommand ::
  "int \<Rightarrow> ref \<Rightarrow> ref \<Rightarrow> RemoteLoaderWithUndo \<Rightarrow> RemoteLoaderWithUndo" where
  "setCommand slot onCommand offCommand this =
     this\<lparr>onCommands := aset (onCommands this) slot onCommand,
          offCommands := aset (offCommands this) slot offCommand\<rparr>"

text \<open>
  The three buttons. Reading an unset slot gives \<open>undefined\<close>, and calling a method on it
  throws a \<open>TypeError\<close> before anything else happens. The command is run first; only
  when it has returned is the field \<open>undoCommand\<close> assigned. No command touches the
  remote control, so the second read of the slot gives the reference \<open>c\<close> again.
\<close>

definition onButtonWasPushed ::
  "int \<Rightarrow> RemoteLoaderWithUndo \<Rightarrow> world \<Rightarrow> (error + RemoteLoaderWithUndo \<times> world) option" where
  "onButtonWasPushed slot this w =
     (case aget (onCommands this) slot of
        None \<Rightarrow> Some (Inl TypeError)
      | Some c \<Rightarrow>
          (case execute c w of
             None \<Rightarrow> None
           | Some w1 \<Rightarrow> Some (Inr (this\<lparr>undoCommand := c\<rparr>, w1))))"

definition offButtonWasPushed ::
  "int \<Rightarrow> RemoteLoaderWithUndo \<Rightarrow> world \<Rightarrow> (error + RemoteLoaderWithUndo \<times> world) option" where
  "offButtonWasPushed slot this w =
     (case aget (offCommands this) slot of
        None \<Rightarrow> Some (Inl TypeError)
      | Some c \<Rightarrow>
          (case execute c w of
             None \<Rightarrow> None
           | Some w1 \<Rightarrow> Some (Inr (this\<lparr>undoCommand := c\<rparr>, w1))))"

definition undoButtonWasPushed ::
  "RemoteLoaderWithUndo \<Rightarrow> world \<Rightarrow> (error + RemoteLoaderWithUndo \<times> world) option" where
  "undoButtonWasPushed this w =
     (case undo (undoCommand this) w of
        None \<Rightarrow> None
      | Some w1 \<Rightarrow> Some (Inr (this, w1)))"

section \<open>Stores in which macros refer backwards\<close>

text \<open>
  \<open>new MacroCommand(commands)\<close> is given commands that already exist, so in a store built
  by constructors alone every macro refers to objects older than itself. Such a store is
  called layered.
\<close>

fun macro_children :: "Command \<Rightarrow> ref list" where
  "macro_children (MacroCommand cs) = cs"
| "macro_children c = []"

definition layered :: "world \<Rightarrow> bool" where
  "layered w \<longleftrightarrow>
     list_all (\<lambda>(i, c). list_all (\<lambda>child. child < i) (macro_children c))
       (zip [0..<length (cmds w)] (cmds w))"

section \<open>Example configurations\<close>

text \<open>One kitchen light, one stereo, and a command object for each.\<close>

definition kitchen_and_stereo :: world where
  "kitchen_and_stereo =
     \<lparr>lights = [\<lparr>Light.location = ''Kitchen''\<rparr>], fans = [],
      cmds = [LightOffCommand 0, StereoOnWithCDCommand 0], console = []\<rparr>"

text \<open>
  The same store after one transition of a device, called on the device itself: the
  kitchen light put off, the kitchen light put on, the stereo put on, the stereo put off.
  The console then ends with that device's report.
\<close>

definition kitchen_light_off :: world where
  "kitchen_light_off = Light_off 0 kitchen_and_stereo"

definition kitchen_light_on :: world where
  "kitchen_light_on = Light_on 0 kitchen_and_stereo"

definition stereo_reported_on :: world where
  "stereo_reported_on = Stereo_on 0 kitchen_and_stereo"

definition stereo_reported_off :: world where
  "stereo_reported_off = Stereo_off 0 kitchen_and_stereo"

text \<open>
  A living room fan and a \<open>CeilingFanHighCommand\<close> built for it while it was off; the fan
  was then put on low by other means, before the command was ever executed.
\<close>

definition living_room_fan :: world where
  "living_room_fan =
     (let (f, w1) = CeilingFan_new ''Living Room'' empty_world;
          (c, w2) = CeilingFanHighCommand_new f w1
      in CeilingFan_low f w2)"

text \<open>
  A macro over three commands: kitchen light off, living room fan high, living room fan
  low. \<open>macro_world_run\<close> is the world after the macro has been executed once.
\<close>

definition macro_world :: world where
  "macro_world =
     (let (l, w1) = Light_new ''Kitchen'' empty_world;
          (f, w2) = CeilingFan_new ''Living Room'' w1;
          (c0, w3) = LightOffCommand_new l w2;
          (c1, w4) = CeilingFanHighCommand_new f w3;
          (c2, w5) = CeilingFanLowCommand_new f w4;
          (m, w6) = MacroCommand_new [c0, c1, c2] w5
      in w6)"

definition macro_world_run :: world where
  "macro_world_run =
     \<lparr>lights = [\<lparr>Light.location = ''Kitchen''\<rparr>],
      fans = [\<lparr>CeilingFan.location = ''Living Room'', speed = 1\<rparr>],
      cmds = [LightOffCommand 0, CeilingFanHighCommand 0 0, CeilingFanLowCommand 0 3,
              MacroCommand [0, 1, 2]],
      console = [''Kitchen light is off'', ''Living Room ceiling fan is on high'',
                 ''Living Room ceiling fan is on low'']\<rparr>"

text \<open>
  The wiring of \<open>RemoteLoader\<close>: its constructor makes the remote control and the living
  room fan, and \<open>main\<close> makes the four fan commands and binds slots 0, 1 and 2. The fan
  is object 0; the commands medium, high, low and off are objects 15 to 18, after the 15
  \<open>NoCommand\<close> objects of the remote control. \<open>loader_remote u\<close> is that remote control
  with \<open>undoCommand = u\<close>; \<open>loader_world s ph po out\<close> is that store with the fan at speed
  \<open>s\<close>, \<open>ph\<close> and \<open>po\<close> in the \<open>prevSpeed\<close> fields of the high and the off command, and
  \<open>out\<close> on the console.
\<close>

definition RemoteLoader_wired :: "RemoteLoaderWithUndo \<times> world" where
  "RemoteLoader_wired =
     (let (remoteControl, w1) = RemoteLoaderWithUndo_new empty_world;
          (fan, w2) = CeilingFan_new ''Living Room'' w1;
          (ceilingFanMedium, w3) = CeilingFanMediumCommand_new fan w2;
          (ceilingFanHigh, w4) = CeilingFanHighCommand_new fan w3;
          (ceilingFanLow, w5) = CeilingFanLowCommand_new fan w4;
          (ceilingFanOff, w6) = CeilingFanOffCommand_new fan w5;
          r1 = setCommand 0 ceilingFanMedium ceilingFanOff remoteControl;
          r2 = setCommand 1 ceilingFanHigh ceilingFanOff r1;
          r3 = setCommand 2 ceilingFanLow ceilingFanOff r2
      in (r3, w6))"

definition loader_remote :: "ref \<Rightarrow> RemoteLoaderWithUndo" where
  "loader_remote u = (fst RemoteLoader_wired)\<lparr>undoCommand := u\<rparr>"

definition loader_world :: "int \<Rightarrow> int \<Rightarrow> int \<Rightarrow> string list \<Rightarrow> world" where
  "loader_world s ph po out =
     \<lparr>lights = [], fans = [\<lparr>CeilingFan.location = ''Living Room'', speed = s\<rparr>],
      cmds = replicate 15 NoCommand @
        [CeilingFanMediumCommand 0 0, CeilingFanHighCommand 0 ph,
         CeilingFanLowCommand 0 0, CeilingFanOffCommand 0 po],
      console = out\<rparr>"

section \<open>The closed set of speeds\<close>

text \<open>
  \<open>speed\<close> and \<open>prevSpeed\<close> are plain numbers in the program. A world is closed when every
  fan's \<open>speed\<close> is one of the four constants, and every fan command in the store refers
  to a fan that exists and has a \<open>prevSpeed\<close> that is one of the four constants.
\<close>

definition speed_closed :: "int \<Rightarrow> bool" where
  "speed_closed s \<longleftrightarrow>
     s = CeilingFan_OFF \<or> s = CeilingFan_LOW \<or> s = CeilingFan_MEDIUM \<or> s = CeilingFan_HIGH"

fun Command_closed :: "nat \<Rightarrow> Command \<Rightarrow> bool" where
  "Command_closed n (CeilingFanMediumCommand f p) = (f < n \<and> speed_closed p)"
| "Command_closed n (CeilingFanHighCommand f p) = (f < n \<and> speed_closed p)"
| "Command_closed n (CeilingFanLowCommand f p) = (f < n \<and> speed_closed p)"
| "Command_closed n (CeilingFanOffCommand f p) = (f < n \<and> speed_closed p)"
| "Command_closed n c = True"

definition closed_world :: "world \<Rightarrow> bool" where
  "closed_world w \<longleftrightarrow>
     list_all (\<lambda>fan. speed_closed (speed fan)) (fans w) \<and>
     list_all (Command_closed (length (fans w))) (cmds w)"

section \<open>Calling a command of a known class\<close>

declare show_nat.simps [simp del]

lemma show_int_11: "show_int 11 = ''11''"
  by (simp add: show_int_def show_nat.simps)

lemma execute_BaseCommand: "cmds w ! c = BaseCommand \<Longrightarrow> execute c w = Some w"
  by (subst execute.simps) simp

lemma undo_BaseCommand: "cmds w ! c = BaseCommand \<Longrightarrow> undo c w = Some w"
  by (subst undo.simps) simp

lemma execute_NoCommand: "cmds w ! c = NoCommand \<Longrightarrow> execute c w = Some w"
  by (subst execute.simps) simp

lemma undo_NoCommand: "cmds w ! c = NoCommand \<Longrightarrow> undo c w = Some w"
  by (subst undo.simps) simp

lemma execute_LightOffCommand:
  "cmds w ! c = LightOffCommand l \<Longrightarrow> execute c w = Some (LightOffCommand_execute l w)"
  by (subst execute.simps) simp

lemma undo_LightOffCommand:
  "cmds w ! c = LightOffCommand l \<Longrightarrow> undo c w = Some (LightOffCommand_undo l w)"
  by (subst undo.simps) simp

lemma execute_StereoOnWithCDCommand:
  "cmds w ! c = StereoOnWithCDCommand s \<Longrightarrow>
   execute c w = Some (StereoOnWithCDCommand_execute s w)"
  by (subst execute.simps) simp

lemma undo_StereoOnWithCDCommand:
  "cmds w ! c = StereoOnWithCDCommand s \<Longrightarrow>
   undo c w = Some (StereoOnWithCDCommand_undo s w)"
  by (subst undo.simps) simp

lemma execute_CeilingFanMediumCommand:
  "cmds w ! c = CeilingFanMediumCommand f p \<Longrightarrow>
   execute c w = Some (CeilingFanMediumCommand_execute c f w)"
  by (subst execute.simps) simp

lemma execute_CeilingFanHighCommand:
  "cmds w ! c = CeilingFanHighCommand f p \<Longrightarrow>
   execute c w = Some (CeilingFanHighCommand_execute c f w)"
  by (subst execute.simps) simp

lemma execute_CeilingFanLowCommand:
  "cmds w ! c = CeilingFanLowCommand f p \<Longrightarrow>
   execute c w = Some (CeilingFanLowCommand_execute c f w)"
  by (subst execute.simps) simp

lemma execute_CeilingFanOffCommand:
  "cmds w ! c = CeilingFanOffCommand f p \<Longrightarrow>
   execute c w = Some (CeilingFanOffCommand_execute c f w)"
  by (subst execute.simps) simp

lemma undo_CeilingFanMediumCommand:
  "cmds w ! c = CeilingFanMediumCommand f p \<Longrightarrow>
   undo c w = Some (CeilingFanMediumCommand_undo f p w)"
  by (subst undo.simps) simp

lemma undo_CeilingFanHighCommand:
  "cmds w ! c = CeilingFanHighCommand f p \<Longrightarrow>
   undo c w = Some (CeilingFanHighCommand_undo f p w)"
  by (subst undo.simps) simp

lemma undo_CeilingFanLowCommand:
  "cmds w ! c = CeilingFanLowCommand f p \<Longrightarrow>
   undo c w = Some (CeilingFanLowCommand_undo f p w)"
  by (subst undo.simps) simp

lemma undo_CeilingFanOffCommand:
  "cmds w ! c = CeilingFanOffCommand f p \<Longrightarrow>
   undo c w = Some (CeilingFanOffCommand_undo f p w)"
  by (subst undo.simps) simp

lemma execute_MacroCommand:
  "cmds w ! c = MacroCommand cs \<Longrightarrow> execute c w = forEach cs execute w"
  by (subst execute.simps) simp

lemma undo_MacroCommand:
  "cmds w ! c = MacroCommand cs \<Longrightarrow> undo c w = forEach cs undo w"
  by (subst undo.simps) simp

section \<open>Two-state devices: undo is the opposite transition\<close>

lemma reported_worlds:
  "kitchen_light_off = kitchen_and_stereo\<lparr>console := [''Kitchen light is off'']\<rparr>"
  "kitchen_light_on = kitchen_and_stereo\<lparr>console := [''Kitchen light is on'']\<rparr>"
  "stereo_reported_on = kitchen_and_stereo\<lparr>console := [''Stereo is on'']\<rparr>"
  "stereo_reported_off = kitchen_and_stereo\<lparr>console := [''Stereo is off'']\<rparr>"
  by (simp_all add: kitchen_light_off_def kitchen_light_on_def stereo_reported_on_def stereo_reported_off_def
      Light_off_def Light_on_def Stereo_on_def Stereo_off_def console_log_def
      kitchen_and_stereo_def)

text \<open>
  C6, as the program has it. \<open>Light\<close> and \<open>Stereo\<close> keep no power field: their transitions
  only report, so what a device was last told is what its last report says. The binary
  commands of the program are \<open>LightOffCommand\<close> and \<open>StereoOnWithCDCommand\<close>; there is no
  on command for a light and no off command for a stereo. For each of the two, in every
  world, \<open>execute\<close> followed by \<open>undo\<close> returns, changes no object of the store, and
  reports the command's own transition and then the opposite one, whatever was reported
  before: no snapshot is consulted. The last report after the round trip is therefore the
  opposite of the command's transition, and it is the report the console ended with
  before \<open>execute\<close> exactly when that was already the opposite one: light on before the
  off command, stereo off before the on command.
\<close>

theorem binary_execute_undo_complement:
  "(cmds w ! off = LightOffCommand l \<longrightarrow>
      (\<exists>w2. Option.bind (execute off w) (undo off) = Some w2 \<and>
         w2 = w\<lparr>console := console w @
                [Light.location (lights w ! l) @ '' light is off'',
                 Light.location (lights w ! l) @ '' light is on'']\<rparr> \<and>
         last (console w2) = Light.location (lights w ! l) @ '' light is on'' \<and>
         (console w \<noteq> [] \<longrightarrow>
            (last (console w2) = last (console w)) =
            (last (console w) = Light.location (lights w ! l) @ '' light is on'')))) \<and>
   (cmds w ! on = StereoOnWithCDCommand s \<longrightarrow>
      (\<exists>w2. Option.bind (execute on w) (undo on) = Some w2 \<and>
         w2 = w\<lparr>console := console w @
                [''Stereo is on'', ''Stereo is set for CD input'',
                 ''Stereo volume set to 11'', ''Stereo is off'']\<rparr> \<and>
         last (console w2) = ''Stereo is off'' \<and>
         (console w \<noteq> [] \<longrightarrow>
            (last (console w2) = last (console w)) = (last (console w) = ''Stereo is off''))))"
  by (auto simp add: execute_LightOffCommand undo_LightOffCommand
      execute_StereoOnWithCDCommand undo_StereoOnWithCDCommand
      LightOffCommand_execute_def LightOffCommand_undo_def Light_off_def Light_on_def
      StereoOnWithCDCommand_execute_def StereoOnWithCDCommand_undo_def Stereo_on_def
      Stereo_off_def Stereo_setCD_def Stereo_setVolume_def console_log_def show_int_11)

theorem binary_execute_undo_complement_witness:
  "cmds kitchen_light_on ! 0 = LightOffCommand 0 \<and>
   console kitchen_light_on = [''Kitchen light is on''] \<and>
   Option.bind (execute 0 kitchen_light_on) (undo 0) =
     Some (kitchen_light_on\<lparr>console :=
        [''Kitchen light is on'', ''Kitchen light is off'', ''Kitchen light is on'']\<rparr>) \<and>
   last [''Kitchen light is on'', ''Kitchen light is off'', ''Kitchen light is on''] =
     last (console kitchen_light_on) \<and>
   cmds stereo_reported_off ! 1 = StereoOnWithCDCommand 0 \<and>
   console stereo_reported_off = [''Stereo is off''] \<and>
   Option.bind (execute 1 stereo_reported_off) (undo 1) =
     Some (stereo_reported_off\<lparr>console :=
        [''Stereo is off'', ''Stereo is on'', ''Stereo is set for CD input'',
         ''Stereo volume set to 11'', ''Stereo is off'']\<rparr>) \<and>
   last [''Stereo is off'', ''Stereo is on'', ''Stereo is set for CD input'',
         ''Stereo volume set to 11'', ''Stereo is off''] = last (console stereo_reported_off)"
  using binary_execute_undo_complement [of kitchen_light_on 0 0 1 0]
    binary_execute_undo_complement [of stereo_reported_off 0 0 1 0]
  by (simp add: reported_worlds kitchen_and_stereo_def)

text \<open>
  C6, as the claim has it, fails. A kitchen light that was put off, and whose off command
  is executed and undone, is reported on; a stereo that was put on, and whose on command
  is executed and undone, is reported off.
\<close>

theorem binary_round_trip_counterexample:
  "cmds kitchen_light_off ! 0 = LightOffCommand 0 \<and>
   console kitchen_light_off = [''Kitchen light is off''] \<and>
   Option.bind (execute 0 kitchen_light_off) (undo 0) =
     Some (kitchen_light_off\<lparr>console :=
        [''Kitchen light is off'', ''Kitchen light is off'', ''Kitchen light is on'']\<rparr>) \<and>
   last [''Kitchen light is off'', ''Kitchen light is off'', ''Kitchen light is on''] \<noteq>
     last (console kitchen_light_off) \<and>
   cmds stereo_reported_on ! 1 = StereoOnWithCDCommand 0 \<and>
   console stereo_reported_on = [''Stereo is on''] \<and>
   Option.bind (execute 1 stereo_reported_on) (undo 1) =
     Some (stereo_reported_on\<lparr>console :=
        [''Stereo is on'', ''Stereo is on'', ''Stereo is set for CD input'',
         ''Stereo volume set to 11'', ''Stereo is off'']\<rparr>) \<and>
   last [''Stereo is on'', ''Stereo is on'', ''Stereo is set for CD input'',
         ''Stereo volume set to 11'', ''Stereo is off''] \<noteq> last (console stereo_reported_on)"
  by (simp add: reported_worlds kitchen_and_stereo_def
      execute_LightOffCommand [where l = 0] undo_LightOffCommand [where l = 0]
      execute_StereoOnWithCDCommand [where s = 0] undo_StereoOnWithCDCommand [where s = 0]
      LightOffCommand_execute_def LightOffCommand_undo_def Light_off_def Light_on_def
      StereoOnWithCDCommand_execute_def StereoOnWithCDCommand_undo_def Stereo_on_def
      Stereo_off_def Stereo_setCD_def Stereo_setVolume_def console_log_def show_int_11)

section \<open>Ceiling fan commands\<close>

lemmas CeilingFan_speeds = CeilingFan_HIGH_def CeilingFan_MEDIUM_def CeilingFan_LOW_def CeilingFan_OFF_def

lemmas CeilingFan_transitions =
  CeilingFan_high_def CeilingFan_medium_def CeilingFan_low_def CeilingFan_off_def
  CeilingFan_getSpeed_def console_log_def

lemmas CeilingFan_command_bodies =
  CeilingFanMediumCommand_execute_def CeilingFanHighCommand_execute_def
  CeilingFanLowCommand_execute_def CeilingFanOffCommand_execute_def
  CeilingFanMediumCommand_undo_def CeilingFanHighCommand_undo_def
  CeilingFanLowCommand_undo_def CeilingFanOffCommand_undo_def

lemmas Command_constructors =
  new_Command_def LightOffCommand_new_def StereoOnWithCDCommand_new_def NoCommand_new_def
  CeilingFanMediumCommand_new_def CeilingFanHighCommand_new_def CeilingFanLowCommand_new_def
  CeilingFanOffCommand_new_def MacroCommand_new_def

text \<open>After \<open>execute\<close> of a fan command, \<open>undo\<close> works from the speed read by \<open>execute\<close>.\<close>

lemma execute_undo_High:
  assumes "this < length (cmds w)" and "cmds w ! this = CeilingFanHighCommand f p"
  shows "cmds (CeilingFanHighCommand_execute this f w) ! this =
           CeilingFanHighCommand f (speed (fans w ! f))"
    and "undo this (CeilingFanHighCommand_execute this f w) =
           Some (CeilingFanHighCommand_undo f (speed (fans w ! f))
                  (CeilingFanHighCommand_execute this f w))"
proof -
  show c: "cmds (CeilingFanHighCommand_execute this f w) ! this =
           CeilingFanHighCommand f (speed (fans w ! f))"
    using assms(1)
    by (simp add: CeilingFanHighCommand_execute_def CeilingFan_transitions Let_def)
  show "undo this (CeilingFanHighCommand_execute this f w) =
           Some (CeilingFanHighCommand_undo f (speed (fans w ! f))
                  (CeilingFanHighCommand_execute this f w))"
    using c by (rule undo_CeilingFanHighCommand)
qed

lemma execute_undo_Medium:
  assumes "this < length (cmds w)" and "cmds w ! this = CeilingFanMediumCommand f p"
  shows "cmds (CeilingFanMediumCommand_execute this f w) ! this =
           CeilingFanMediumCommand f (speed (fans w ! f))"
    and "undo this (CeilingFanMediumCommand_execute this f w) =
           Some (CeilingFanMediumCommand_undo f (speed (fans w ! f))
                  (CeilingFanMediumCommand_execute this f w))"
proof -
  show c: "cmds (CeilingFanMediumCommand_execute this f w) ! this =
           CeilingFanMediumCommand f (speed (fans w ! f))"
    using assms(1)
    by (simp add: CeilingFanMediumCommand_execute_def CeilingFan_transitions Let_def)
  show "undo this (CeilingFanMediumCommand_execute this f w) =
           Some (CeilingFanMediumCommand_undo f (speed (fans w ! f))
                  (CeilingFanMediumCommand_execute this f w))"
    using c by (rule undo_CeilingFanMediumCommand)
qed

lemma execute_undo_Low:
  assumes "this < length (cmds w)" and "cmds w ! this = CeilingFanLowCommand f p"
  shows "cmds (CeilingFanLowCommand_execute this f w) ! this =
           CeilingFanLowCommand f (speed (fans w ! f))"
    and "undo this (CeilingFanLowCommand_execute this f w) =
           Some (CeilingFanLowCommand_undo f (speed (fans w ! f))
                  (CeilingFanLowCommand_execute this f w))"
proof -
  show c: "cmds (CeilingFanLowCommand_execute this f w) ! this =
           CeilingFanLowCommand f (speed (fans w ! f))"
    using assms(1)
    by (simp add: CeilingFanLowCommand_execute_def CeilingFan_transitions Let_def)
  show "undo this (CeilingFanLowCommand_execute this f w) =
           Some (CeilingFanLowCommand_undo f (speed (fans w ! f))
                  (CeilingFanLowCommand_execute this f w))"
    using c by (rule undo_CeilingFanLowCommand)
qed

lemma execute_undo_Off:
  assumes "this < length (cmds w)" and "cmds w ! this = CeilingFanOffCommand f p"
  shows "cmds (CeilingFanOffCommand_execute this f w) ! this =
           CeilingFanOffCommand f (speed (fans w ! f))"
    and "undo this (CeilingFanOffCommand_execute this f w) =
           Some (CeilingFanOffCommand_undo f (speed (fans w ! f))
                  (CeilingFanOffCommand_execute this f w))"
proof -
  show c: "cmds (CeilingFanOffCommand_execute this f w) ! this =
           CeilingFanOffCommand f (speed (fans w ! f))"
    using assms(1)
    by (simp add: CeilingFanOffCommand_execute_def CeilingFan_transitions Let_def)
  show "undo this (CeilingFanOffCommand_execute this f w) =
           Some (CeilingFanOffCommand_undo f (speed (fans w ! f))
                  (CeilingFanOffCommand_execute this f w))"
    using c by (rule undo_CeilingFanOffCommand)
qed

text \<open>The four \<open>undo\<close> bodies, run on a snapshot that is one of the four speeds.\<close>

lemma undo_restores_fans:
  assumes "f < length (fans w)"
    and "speed (fans w ! f) \<in> {CeilingFan_OFF, CeilingFan_LOW, CeilingFan_MEDIUM, CeilingFan_HIGH}"
  shows "fans (CeilingFanHighCommand_undo f (speed (fans w ! f))
           (CeilingFanHighCommand_execute this f w)) = fans w"
    and "fans (CeilingFanMediumCommand_undo f (speed (fans w ! f))
           (CeilingFanMediumCommand_execute this f w)) = fans w"
    and "fans (CeilingFanLowCommand_undo f (speed (fans w ! f))
           (CeilingFanLowCommand_execute this f w)) = fans w"
    and "fans (CeilingFanOffCommand_undo f (speed (fans w ! f))
           (CeilingFanOffCommand_execute this f w)) = fans w"
  using assms
  by (auto simp add: CeilingFan_command_bodies CeilingFan_transitions Let_def
      CeilingFan_speeds list_update_same_conv)

lemma living_room_fan_eq:
  "living_room_fan = \<lparr>lights = [], fans = [\<lparr>CeilingFan.location = ''Living Room'', speed = 1\<rparr>],
     cmds = [CeilingFanHighCommand 0 0], console = [''Living Room ceiling fan is on low'']\<rparr>"
  by (simp add: living_room_fan_def CeilingFan_new_def empty_world_def Command_constructors
      CeilingFan_transitions CeilingFan_speeds Let_def)

text \<open>
  C1. Take any of the four fan commands, held at a valid reference and bound to a fan in
  the store whose speed is OFF, LOW, MEDIUM or HIGH. Then \<open>execute\<close> returns, \<open>undo\<close>
  after it returns, and the fan has the speed it had before \<open>execute\<close>; in fact every fan
  in the store is as it was. This covers the 16 pairs of start speed and command.
\<close>

theorem fan_execute_undo_restores:
  assumes "this < length (cmds w)" and "f < length (fans w)"
    and "cmds w ! this \<in> {CeilingFanHighCommand f p, CeilingFanMediumCommand f p,
                           CeilingFanLowCommand f p, CeilingFanOffCommand f p}"
    and "speed (fans w ! f) \<in> {CeilingFan_OFF, CeilingFan_LOW, CeilingFan_MEDIUM, CeilingFan_HIGH}"
  shows "\<exists>w1 w2. execute this w = Some w1 \<and> undo this w1 = Some w2 \<and>
           speed (fans w2 ! f) = speed (fans w ! f) \<and> fans w2 = fans w"
proof -
  from assms(3) consider
      (high) "cmds w ! this = CeilingFanHighCommand f p"
    | (medium) "cmds w ! this = CeilingFanMediumCommand f p"
    | (low) "cmds w ! this = CeilingFanLowCommand f p"
    | (off) "cmds w ! this = CeilingFanOffCommand f p"
    by auto
  then show ?thesis
  proof cases
    case high
    from execute_CeilingFanHighCommand [OF high] execute_undo_High(2) [OF assms(1) high]
      undo_restores_fans(1) [OF assms(2,4)]
    show ?thesis by simp
  next
    case medium
    from execute_CeilingFanMediumCommand [OF medium] execute_undo_Medium(2) [OF assms(1) medium]
      undo_restores_fans(2) [OF assms(2,4)]
    show ?thesis by simp
  next
    case low
    from execute_CeilingFanLowCommand [OF low] execute_undo_Low(2) [OF assms(1) low]
      undo_restores_fans(3) [OF assms(2,4)]
    show ?thesis by simp
  next
    case off
    from execute_CeilingFanOffCommand [OF off] execute_undo_Off(2) [OF assms(1) off]
      undo_restores_fans(4) [OF assms(2,4)]
    show ?thesis by simp
  qed
qed

theorem fan_execute_undo_restores_witness:
  "(0::nat) < length (cmds living_room_fan) \<and> (0::nat) < length (fans living_room_fan) \<and>
   cmds living_room_fan ! 0 = CeilingFanHighCommand 0 0 \<and>
   speed (fans living_room_fan ! 0) = CeilingFan_LOW \<and>
   (\<exists>w1 w2. execute 0 living_room_fan = Some w1 \<and> undo 0 w1 = Some w2 \<and>
       speed (fans w2 ! 0) = CeilingFan_LOW \<and> fans w2 = fans living_room_fan)"
  using fan_execute_undo_restores [of 0 living_room_fan 0 0]
  by (simp add: living_room_fan_eq CeilingFan_speeds)

text \<open>
  C4. Whatever \<open>prevSpeed\<close> held before (the value read by the constructor, or one left
  by an earlier run), after \<open>execute\<close> the field holds the speed the fan had when
  \<open>execute\<close> was called, and \<open>undo\<close> then puts the fan back to that speed. In the
  witness the command was built while the fan was off and is executed when the fan is
  on low: the snapshot is LOW, not OFF.
\<close>

theorem snapshot_taken_at_execute:
  assumes "this < length (cmds w)" and "f < length (fans w)"
    and "cmds w ! this \<in> {CeilingFanHighCommand f p, CeilingFanMediumCommand f p,
                           CeilingFanLowCommand f p, CeilingFanOffCommand f p}"
  shows "\<exists>w1. execute this w = Some w1 \<and>
           ceilingFan (cmds w1 ! this) = f \<and>
           prevSpeed (cmds w1 ! this) = speed (fans w ! f) \<and>
           (speed (fans w ! f) \<in> {CeilingFan_OFF, CeilingFan_LOW, CeilingFan_MEDIUM, CeilingFan_HIGH}
              \<longrightarrow> (\<exists>w2. undo this w1 = Some w2 \<and> speed (fans w2 ! f) = speed (fans w ! f)))"
proof -
  from assms(3) consider
      (high) "cmds w ! this = CeilingFanHighCommand f p"
    | (medium) "cmds w ! this = CeilingFanMediumCommand f p"
    | (low) "cmds w ! this = CeilingFanLowCommand f p"
    | (off) "cmds w ! this = CeilingFanOffCommand f p"
    by auto
  then show ?thesis
  proof cases
    case high
    from execute_CeilingFanHighCommand [OF high] execute_undo_High [OF assms(1) high]
      undo_restores_fans(1) [OF assms(2), of this]
    show ?thesis by (intro exI [of _ "the (execute this w)"]) auto
  next
    case medium
    from execute_CeilingFanMediumCommand [OF medium] execute_undo_Medium [OF assms(1) medium]
      undo_restores_fans(2) [OF assms(2), of this]
    show ?thesis by (intro exI [of _ "the (execute this w)"]) auto
  next
    case low
    from execute_CeilingFanLowCommand [OF low] execute_undo_Low [OF assms(1) low]
      undo_restores_fans(3) [OF assms(2), of this]
    show ?thesis by (intro exI [of _ "the (execute this w)"]) auto
  next
    case off
    from execute_CeilingFanOffCommand [OF off] execute_undo_Off [OF assms(1) off]
      undo_restores_fans(4) [OF assms(2), of this]
    show ?thesis by (intro exI [of _ "the (execute this w)"]) auto
  qed
qed

theorem snapshot_taken_at_execute_witness:
  "(0::nat) < length (cmds living_room_fan) \<and> (0::nat) < length (fans living_room_fan) \<and>
   cmds living_room_fan ! 0 = CeilingFanHighCommand 0 CeilingFan_OFF \<and>
   speed (fans living_room_fan ! 0) = CeilingFan_LOW \<and>
   (\<exists>w1. execute 0 living_room_fan = Some w1 \<and> ceilingFan (cmds w1 ! 0) = 0 \<and>
       prevSpeed (cmds w1 ! 0) = CeilingFan_LOW \<and>
       (\<exists>w2. undo 0 w1 = Some w2 \<and> speed (fans w2 ! 0) = CeilingFan_LOW))"
  using snapshot_taken_at_execute [of 0 living_room_fan 0 0]
  by (simp add: living_room_fan_eq CeilingFan_speeds)

section \<open>MacroCommand\<close>

lemma fold_bind_forEach:
  "fold (\<lambda>c r. Option.bind r (f c)) cs r = Option.bind r (forEach cs f)"
proof (induction cs arbitrary: r)
  case Nil
  show ?case by simp
next
  case (Cons c cs)
  show ?case by (cases r) (simp_all add: Cons.IH)
qed

lemma forEach_fold: "forEach cs f s = fold (\<lambda>c r. Option.bind r (f c)) cs (Some s)"
  by (simp add: fold_bind_forEach)

lemma macro_world_eq:
  "macro_world = \<lparr>lights = [\<lparr>Light.location = ''Kitchen''\<rparr>],
     fans = [\<lparr>CeilingFan.location = ''Living Room'', speed = 0\<rparr>],
     cmds = [LightOffCommand 0, CeilingFanHighCommand 0 0, CeilingFanLowCommand 0 0,
             MacroCommand [0, 1, 2]], console = []\<rparr>"
  by (simp add: macro_world_def CeilingFan_new_def Light_new_def empty_world_def Command_constructors
      CeilingFan_transitions CeilingFan_speeds Let_def)

lemma macro_world_execute:
  "Option.bind (Option.bind (execute 0 macro_world) (execute 1)) (execute 2) = Some macro_world_run"
  by (simp add: macro_world_eq macro_world_run_def
     execute_LightOffCommand [where l = 0] execute_CeilingFanHighCommand [where f = 0 and p = 0]
     execute_CeilingFanLowCommand [where f = 0 and p = 0] LightOffCommand_execute_def Light_off_def CeilingFan_command_bodies CeilingFan_transitions CeilingFan_speeds Let_def)

lemma macro_world_undo:
  "Option.bind (Option.bind (undo 0 macro_world_run) (undo 1)) (undo 2) =
    Some (macro_world_run\<lparr>fans := [\<lparr>CeilingFan.location = ''Living Room'', speed = 3\<rparr>],
       console := console macro_world_run @ [''Kitchen light is on'', ''Living Room ceiling fan is off'',
                ''Living Room ceiling fan is on high'']\<rparr>)"
  by (simp add: macro_world_run_def
     undo_LightOffCommand [where l = 0] undo_CeilingFanHighCommand [where f = 0 and p = 0]
     undo_CeilingFanLowCommand [where f = 0 and p = 3] LightOffCommand_undo_def Light_on_def CeilingFan_command_bodies CeilingFan_transitions CeilingFan_speeds Let_def)

subsection \<open>Every call returns in a layered store\<close>

lemma layered_iff:
  "layered w \<longleftrightarrow>
     (\<forall>i < length (cmds w). \<forall>child \<in> set (macro_children (cmds w ! i)). child < i)"
proof -
  have "list_all (\<lambda>child. child < i) cs \<longleftrightarrow> (\<forall>child \<in> set cs. child < i)" for i :: nat and cs
    by (simp add: list_all_iff)
  then show ?thesis
    by (simp add: layered_def list_all_length)
qed

lemma layered_shape:
  assumes "map macro_children (cmds w') = map macro_children (cmds w)"
  shows "layered w' = layered w"
proof -
  have len: "length (cmds w') = length (cmds w)"
    using assms by (metis length_map)
  have "macro_children (cmds w' ! i) = macro_children (cmds w ! i)" if "i < length (cmds w)" for i
    using that assms len by (metis nth_map)
  then show ?thesis by (simp add: layered_iff len)
qed

lemma shape_console_log [simp]: "cmds (console_log s w) = cmds w"
  by (simp add: console_log_def)

lemma shape_transitions [simp]:
  "cmds (CeilingFan_high f w) = cmds w" "cmds (CeilingFan_medium f w) = cmds w"
  "cmds (CeilingFan_low f w) = cmds w" "cmds (CeilingFan_off f w) = cmds w"
  by (simp_all add: CeilingFan_high_def CeilingFan_medium_def CeilingFan_low_def
      CeilingFan_off_def Let_def)

lemma shape_update:
  assumes "macro_children (cmds w ! this) = []" and "macro_children c = []"
  shows "map macro_children ((cmds w)[this := c]) = map macro_children (cmds w)"
proof (cases "this < length (cmds w)")
  case True
  then show ?thesis using assms by (simp add: map_update list_update_same_conv)
next
  case False
  then show ?thesis by (simp add: list_update_beyond not_less)
qed

lemma shape_execute_bodies:
  "cmds (LightOffCommand_execute l w) = cmds w"
  "cmds (StereoOnWithCDCommand_execute s w) = cmds w"
  "cmds w ! this = CeilingFanMediumCommand f p \<Longrightarrow>
     map macro_children (cmds (CeilingFanMediumCommand_execute this f w)) =
     map macro_children (cmds w)"
  "cmds w ! this = CeilingFanHighCommand f p \<Longrightarrow>
     map macro_children (cmds (CeilingFanHighCommand_execute this f w)) =
     map macro_children (cmds w)"
  "cmds w ! this = CeilingFanLowCommand f p \<Longrightarrow>
     map macro_children (cmds (CeilingFanLowCommand_execute this f w)) =
     map macro_children (cmds w)"
  "cmds w ! this = CeilingFanOffCommand f p \<Longrightarrow>
     map macro_children (cmds (CeilingFanOffCommand_execute this f w)) =
     map macro_children (cmds w)"
  by (simp_all add: LightOffCommand_execute_def Light_off_def
      StereoOnWithCDCommand_execute_def Stereo_on_def Stereo_setCD_def Stereo_setVolume_def
      CeilingFanMediumCommand_execute_def CeilingFanHighCommand_execute_def
      CeilingFanLowCommand_execute_def CeilingFanOffCommand_execute_def shape_update)

lemma shape_undo_bodies:
  "cmds (LightOffCommand_undo l w) = cmds w"
  "cmds (StereoOnWithCDCommand_undo s w) = cmds w"
  "cmds (CeilingFanMediumCommand_undo f p w) = cmds w"
  "cmds (CeilingFanHighCommand_undo f p w) = cmds w"
  "cmds (CeilingFanLowCommand_undo f p w) = cmds w"
  "cmds (CeilingFanOffCommand_undo f p w) = cmds w"
  by (simp_all add: LightOffCommand_undo_def Light_on_def StereoOnWithCDCommand_undo_def
      Stereo_off_def CeilingFanMediumCommand_undo_def CeilingFanHighCommand_undo_def
      CeilingFanLowCommand_undo_def CeilingFanOffCommand_undo_def)

lemma forEach_returns:
  assumes "\<And>x s. x \<in> set xs \<Longrightarrow> Q s \<Longrightarrow> \<exists>s'. f x s = Some s' \<and> Q s'"
    and "Q s"
  shows "\<exists>s'. forEach xs f s = Some s' \<and> Q s'"
  using assms
proof (induction xs arbitrary: s)
  case Nil
  then show ?case by simp
next
  case (Cons x xs)
  from Cons.prems obtain s1 where s1: "f x s = Some s1" "Q s1" by fastforce
  from Cons.IH [of s1] Cons.prems(1) s1(2)
  obtain s' where "forEach xs f s1 = Some s'" "Q s'" by fastforce
  with s1 show ?case by simp
qed

lemma execute_returns_shape:
  assumes "\<forall>i < length sh. \<forall>child \<in> set (sh ! i). child < i"
  shows "this < length sh \<Longrightarrow> map macro_children (cmds w) = sh \<Longrightarrow>
         \<exists>w'. execute this w = Some w' \<and> map macro_children (cmds w') = sh"
proof (induction this arbitrary: w rule: less_induct)
  case (less this)
  have here: "macro_children (cmds w ! this) = sh ! this"
    using less.prems by (metis length_map nth_map)
  show ?case
  proof (cases "cmds w ! this")
    case (MacroCommand cs)
    have small: "child < this \<and> child < length sh" if "child \<in> set cs" for child
      using that here MacroCommand assms less.prems(1) by fastforce
    have "\<exists>w'. forEach cs execute w = Some w' \<and> map macro_children (cmds w') = sh"
      by (rule forEach_returns [where Q = "\<lambda>w. map macro_children (cmds w) = sh"])
         (use small less.IH less.prems(2) in auto)
    then show ?thesis using MacroCommand by (simp add: execute_MacroCommand)
  next
    case BaseCommand
    then show ?thesis using less.prems by (simp add: execute_BaseCommand)
  next
    case NoCommand
    then show ?thesis using less.prems by (simp add: execute_NoCommand)
  next
    case (LightOffCommand l)
    then show ?thesis using less.prems
      by (simp add: execute_LightOffCommand shape_execute_bodies)
  next
    case (StereoOnWithCDCommand s)
    then show ?thesis using less.prems
      by (simp add: execute_StereoOnWithCDCommand shape_execute_bodies)
  next
    case (CeilingFanMediumCommand f p)
    then show ?thesis using less.prems
      by (simp add: execute_CeilingFanMediumCommand shape_execute_bodies(3) [where p = p])
  next
    case (CeilingFanHighCommand f p)
    then show ?thesis using less.prems
      by (simp add: execute_CeilingFanHighCommand shape_execute_bodies(4) [where p = p])
  next
    case (CeilingFanLowCommand f p)
    then show ?thesis using less.prems
      by (simp add: execute_CeilingFanLowCommand shape_execute_bodies(5) [where p = p])
  next
    case (CeilingFanOffCommand f p)
    then show ?thesis using less.prems
      by (simp add: execute_CeilingFanOffCommand shape_execute_bodies(6) [where p = p])
  qed
qed

lemma undo_returns_shape:
  assumes "\<forall>i < length sh. \<forall>child \<in> set (sh ! i). child < i"
  shows "this < length sh \<Longrightarrow> map macro_children (cmds w) = sh \<Longrightarrow>
         \<exists>w'. undo this w = Some w' \<and> map macro_children (cmds w') = sh"
proof (induction this arbitrary: w rule: less_induct)
  case (less this)
  have here: "macro_children (cmds w ! this) = sh ! this"
    using less.prems by (metis length_map nth_map)
  show ?case
  proof (cases "cmds w ! this")
    case (MacroCommand cs)
    have small: "child < this \<and> child < length sh" if "child \<in> set cs" for child
      using that here MacroCommand assms less.prems(1) by fastforce
    have "\<exists>w'. forEach cs undo w = Some w' \<and> map macro_children (cmds w') = sh"
      by (rule forEach_returns [where Q = "\<lambda>w. map macro_children (cmds w) = sh"])
         (use small less.IH less.prems(2) in auto)
    then show ?thesis using MacroCommand by (simp add: undo_MacroCommand)
  qed (use less.prems in \<open>simp_all add: undo_BaseCommand undo_NoCommand undo_LightOffCommand
        undo_StereoOnWithCDCommand undo_CeilingFanMediumCommand undo_CeilingFanHighCommand
        undo_CeilingFanLowCommand undo_CeilingFanOffCommand shape_undo_bodies\<close>)
qed

lemma layered_returns:
  assumes "layered w" and "this < length (cmds w)"
  shows "\<exists>w'. execute this w = Some w' \<and> layered w'"
    and "\<exists>w'. undo this w = Some w' \<and> layered w'"
proof -
  let ?sh = "map macro_children (cmds w)"
  have sh: "\<forall>i < length ?sh. \<forall>child \<in> set (?sh ! i). child < i"
    using assms(1) by (simp add: layered_iff)
  from execute_returns_shape [OF sh, of this w] assms(2)
  obtain w' where "execute this w = Some w'" "map macro_children (cmds w') = ?sh" by auto
  then show "\<exists>w'. execute this w = Some w' \<and> layered w'"
    using assms(1) layered_shape by blast
  from undo_returns_shape [OF sh, of this w] assms(2)
  obtain w' where "undo this w = Some w'" "map macro_children (cmds w') = ?sh" by auto
  then show "\<exists>w'. undo this w = Some w' \<and> layered w'"
    using assms(1) layered_shape by blast
qed

lemma layered_new_Command:
  assumes "layered w" and "\<forall>child \<in> set (macro_children c). child < length (cmds w)"
  shows "layered (snd (new_Command c w))"
  using assms by (auto simp add: layered_iff new_Command_def nth_append less_Suc_eq)

lemma layered_empty: "layered empty_world"
  by (simp add: layered_def empty_world_def)

lemma layered_macro_world: "layered macro_world" "(3::nat) < length (cmds macro_world)"
  by (simp_all add: layered_def macro_world_eq upt_rec)

text \<open>
  C2. \<open>execute\<close> of a macro command is the children's \<open>execute\<close> run one after the other
  from the first element of the array to the last, each in the world its predecessor
  left; \<open>undo\<close> of a macro command is the children's \<open>undo\<close> run in that same order, first
  element first. In a layered store both return. In the witness the macro is light off,
  fan high, fan low on a fan that is off: undoing in array order restores the fan to off
  and then to high, where it stays.
\<close>

theorem macro_runs_children_in_list_order:
  "(cmds w ! m = MacroCommand cs \<longrightarrow>
      execute m w = fold (\<lambda>c r. Option.bind r (execute c)) cs (Some w) \<and>
      undo m w = fold (\<lambda>c r. Option.bind r (undo c)) cs (Some w)) \<and>
   (layered w \<and> m < length (cmds w) \<longrightarrow>
      (\<exists>w1. execute m w = Some w1) \<and> (\<exists>w2. undo m w = Some w2))"
  using layered_returns [of w m]
  by (auto simp add: execute_MacroCommand undo_MacroCommand forEach_fold)

theorem macro_runs_children_in_list_order_witness:
  "cmds macro_world ! 3 = MacroCommand [0, 1, 2] \<and>
   layered macro_world \<and> (3::nat) < length (cmds macro_world) \<and>
   execute 3 macro_world = Some macro_world_run \<and>
   cmds macro_world_run ! 3 = MacroCommand [0, 1, 2] \<and>
   undo 3 macro_world_run =
     Some (macro_world_run\<lparr>
       fans := [\<lparr>CeilingFan.location = ''Living Room'', speed = 3\<rparr>],
       console := console macro_world_run @
         [''Kitchen light is on'', ''Living Room ceiling fan is off'',
          ''Living Room ceiling fan is on high'']\<rparr>)"
proof -
  from macro_runs_children_in_list_order [of macro_world 3 "[0, 1, 2]"]
    macro_runs_children_in_list_order [of macro_world_run 3 "[0, 1, 2]"]
    macro_world_execute macro_world_undo
  have "cmds macro_world ! 3 = MacroCommand [0, 1, 2] \<and>
   execute 3 macro_world = Some macro_world_run \<and>
   cmds macro_world_run ! 3 = MacroCommand [0, 1, 2] \<and>
   undo 3 macro_world_run =
     Some (macro_world_run\<lparr>
       fans := [\<lparr>CeilingFan.location = ''Living Room'', speed = 3\<rparr>],
       console := console macro_world_run @
         [''Kitchen light is on'', ''Living Room ceiling fan is off'',
          ''Living Room ceiling fan is on high'']\<rparr>)"
    by (simp add: macro_world_eq macro_world_run_def)
  with layered_macro_world show ?thesis by simp
qed

section \<open>RemoteLoaderWithUndo\<close>

declare RemoteLoaderWithUndo_fill.simps [simp del]

lemma RemoteLoaderWithUndo_fill_step:
  "i < 7 \<Longrightarrow>
   RemoteLoaderWithUndo_fill i ons offs w =
     RemoteLoaderWithUndo_fill (i + 1) (aset ons i (length (cmds w)))
       (aset offs i (length (cmds w) + 1)) (w\<lparr>cmds := cmds w @ [NoCommand, NoCommand]\<rparr>)"
  by (subst RemoteLoaderWithUndo_fill.simps) (simp add: NoCommand_new_def new_Command_def)

lemma RemoteLoaderWithUndo_fill_done:
  "\<not> i < 7 \<Longrightarrow> RemoteLoaderWithUndo_fill i ons offs w = (ons, offs, w)"
  by (subst RemoteLoaderWithUndo_fill.simps) simp

lemma RemoteLoaderWithUndo_new_eq:
  "RemoteLoaderWithUndo_new w =
     (\<lparr>onCommands = \<lparr>alength = 7, aget =
          [0 \<mapsto> length (cmds w), 1 \<mapsto> length (cmds w) + 2, 2 \<mapsto> length (cmds w) + 4,
           3 \<mapsto> length (cmds w) + 6, 4 \<mapsto> length (cmds w) + 8, 5 \<mapsto> length (cmds w) + 10,
           6 \<mapsto> length (cmds w) + 12]\<rparr>,
       offCommands = \<lparr>alength = 7, aget =
          [0 \<mapsto> length (cmds w) + 1, 1 \<mapsto> length (cmds w) + 3, 2 \<mapsto> length (cmds w) + 5,
           3 \<mapsto> length (cmds w) + 7, 4 \<mapsto> length (cmds w) + 9, 5 \<mapsto> length (cmds w) + 11,
           6 \<mapsto> length (cmds w) + 13]\<rparr>,
       undoCommand = length (cmds w) + 14\<rparr>,
      w\<lparr>cmds := cmds w @ replicate 15 NoCommand\<rparr>)"
proof -
  have fill: "RemoteLoaderWithUndo_fill 0 empty_array empty_array w =
     (\<lparr>alength = 7, aget =
          [0 \<mapsto> length (cmds w), 1 \<mapsto> length (cmds w) + 2, 2 \<mapsto> length (cmds w) + 4,
           3 \<mapsto> length (cmds w) + 6, 4 \<mapsto> length (cmds w) + 8, 5 \<mapsto> length (cmds w) + 10,
           6 \<mapsto> length (cmds w) + 12]\<rparr>,
      \<lparr>alength = 7, aget =
          [0 \<mapsto> length (cmds w) + 1, 1 \<mapsto> length (cmds w) + 3, 2 \<mapsto> length (cmds w) + 5,
           3 \<mapsto> length (cmds w) + 7, 4 \<mapsto> length (cmds w) + 9, 5 \<mapsto> length (cmds w) + 11,
           6 \<mapsto> length (cmds w) + 13]\<rparr>,
      w\<lparr>cmds := cmds w @ replicate 14 NoCommand\<rparr>)"
    by (simp add: RemoteLoaderWithUndo_fill_step RemoteLoaderWithUndo_fill_done aset_def
        empty_array_def numeral_eq_Suc)
  show ?thesis
    by (simp add: RemoteLoaderWithUndo_new_def fill NoCommand_new_def new_Command_def
        replicate_append_same numeral_eq_Suc)
qed

lemma slot_cases: "0 \<le> s \<Longrightarrow> s < 7 \<Longrightarrow> s \<in> {0, 1, 2, 3, 4, 5, 6::int}"
  by auto

lemma nth_new_NoCommand:
  "k < 15 \<Longrightarrow> (xs @ replicate 15 NoCommand) ! (length xs + k) = NoCommand"
  by (simp add: nth_append)

lemma RemoteLoader_wired_eq:
  "RemoteLoader_wired =
    (\<lparr>onCommands = \<lparr>alength = 7,
         aget = [3 \<mapsto> 6, 4 \<mapsto> 8, 5 \<mapsto> 10, 6 \<mapsto> 12, 0 \<mapsto> 15, 1 \<mapsto> 16, 2 \<mapsto> 17]\<rparr>,
       offCommands = \<lparr>alength = 7,
         aget = [3 \<mapsto> 7, 4 \<mapsto> 9, 5 \<mapsto> 11, 6 \<mapsto> 13, 0 \<mapsto> 18, 1 \<mapsto> 18, 2 \<mapsto> 18]\<rparr>,
       undoCommand = 14\<rparr>,
     loader_world 0 0 0 [])"
  by (simp add: RemoteLoader_wired_def RemoteLoaderWithUndo_new_eq empty_world_def
      CeilingFan_new_def Command_constructors CeilingFan_transitions CeilingFan_speeds
      setCommand_def aset_def Let_def loader_world_def)

lemma loader_slots:
  "aget (onCommands (loader_remote u)) 0 = Some 15"
  "aget (onCommands (loader_remote u)) 1 = Some 16"
  "aget (offCommands (loader_remote u)) 0 = Some 18"
  "undoCommand (loader_remote u) = u"
  "(loader_remote u)\<lparr>undoCommand := v\<rparr> = loader_remote v"
  "fst RemoteLoader_wired = loader_remote 14"
  "snd RemoteLoader_wired = loader_world 0 0 0 []"
  by (simp_all add: loader_remote_def RemoteLoader_wired_eq)

lemmas loader_eval =
  loader_world_def nth_append list_update_append CeilingFan_command_bodies
  CeilingFan_transitions CeilingFan_speeds Let_def

lemma loader_on_0:
  "execute 15 (loader_world 0 0 0 []) =
   Some (loader_world 2 0 0 [''Living Room ceiling fan is on medium''])"
  by (simp add: execute_CeilingFanMediumCommand [where f = 0 and p = 0] loader_eval)

lemma loader_on_1:
  "execute 16 (loader_world 2 0 0 [''Living Room ceiling fan is on medium'']) =
   Some (loader_world 3 2 0
       [''Living Room ceiling fan is on medium'', ''Living Room ceiling fan is on high''])"
  by (simp add: execute_CeilingFanHighCommand [where f = 0 and p = 0] loader_eval)

lemma loader_undo_1:
  "undo 16 (loader_world 3 2 0
       [''Living Room ceiling fan is on medium'', ''Living Room ceiling fan is on high'']) =
   Some (loader_world 2 2 0
       [''Living Room ceiling fan is on medium'', ''Living Room ceiling fan is on high'',
        ''Living Room ceiling fan is on medium''])"
  by (simp add: undo_CeilingFanHighCommand [where f = 0 and p = 2] loader_eval)

lemma loader_off_0:
  "execute 18 (loader_world 2 0 0 [''Living Room ceiling fan is on medium'']) =
   Some (loader_world 0 0 2
       [''Living Room ceiling fan is on medium'', ''Living Room ceiling fan is off''])"
  by (simp add: execute_CeilingFanOffCommand [where f = 0 and p = 0] loader_eval)

lemma loader_undo_off:
  "undo 18 (loader_world s 0 2 out) =
   Some (loader_world 2 0 2 (out @ [''Living Room ceiling fan is on medium'']))"
  by (simp add: undo_CeilingFanOffCommand [where f = 0 and p = 2] loader_eval)

lemma loader_remote_bindings:
  "loader_remote 14 =
     fold (\<lambda>(s, on, off). setCommand s on off) [(0, 15, 18), (1, 16, 18), (2, 17, 18)]
       (fst (RemoteLoaderWithUndo_new empty_world))"
  by (simp add: loader_remote_def RemoteLoader_wired_eq RemoteLoaderWithUndo_new_eq
      setCommand_def aset_def empty_world_def)

text \<open>
  C7. A remote control fresh from its constructor has 7 slots. The constructor changes no
  light, no fan and no console line. For every slot \<open>s\<close> from 0 to 6, the on button and the
  off button find a \<open>NoCommand\<close> object, return without error, leave the whole world as
  it is, and record that object as the undo target.
\<close>

theorem default_slots_do_nothing:
  assumes "0 \<le> s" and "s < 7" and "RemoteLoaderWithUndo_new w = (r, w1)"
  shows "lights w1 = lights w \<and> fans w1 = fans w \<and> console w1 = console w \<and>
         (\<exists>c. aget (onCommands r) s = Some c \<and> cmds w1 ! c = NoCommand \<and>
              onButtonWasPushed s r w1 = Some (Inr (r\<lparr>undoCommand := c\<rparr>, w1))) \<and>
         (\<exists>c. aget (offCommands r) s = Some c \<and> cmds w1 ! c = NoCommand \<and>
              offButtonWasPushed s r w1 = Some (Inr (r\<lparr>undoCommand := c\<rparr>, w1)))"
proof -
  let ?n = "length (cmds w)"
  from assms(3) have w1: "w1 = w\<lparr>cmds := cmds w @ replicate 15 NoCommand\<rparr>"
    by (simp add: RemoteLoaderWithUndo_new_eq)
  have fresh: "cmds w1 ! (?n + k) = NoCommand" if "k < 15" for k
    using that by (simp add: w1 nth_append)
  from assms(1,2) have "s \<in> {0, 1, 2, 3, 4, 5, 6}" by (rule slot_cases)
  then obtain j k where on: "aget (onCommands r) s = Some (?n + j)" and j: "j < 15"
    and off: "aget (offCommands r) s = Some (?n + k)" and k: "k < 15"
    using assms(3) by (auto simp add: RemoteLoaderWithUndo_new_eq)
  have "onButtonWasPushed s r w1 = Some (Inr (r\<lparr>undoCommand := ?n + j\<rparr>, w1))"
    by (simp add: onButtonWasPushed_def on execute_NoCommand [OF fresh [OF j]])
  moreover have "offButtonWasPushed s r w1 = Some (Inr (r\<lparr>undoCommand := ?n + k\<rparr>, w1))"
    by (simp add: offButtonWasPushed_def off execute_NoCommand [OF fresh [OF k]])
  ultimately show ?thesis using on off fresh [OF j] fresh [OF k] by (simp add: w1)
qed

theorem default_slots_do_nothing_witness:
  "(0::int) \<le> 3 \<and> (3::int) < 7 \<and>
   lights (snd (RemoteLoaderWithUndo_new empty_world)) = lights empty_world \<and>
   fans (snd (RemoteLoaderWithUndo_new empty_world)) = fans empty_world \<and>
   console (snd (RemoteLoaderWithUndo_new empty_world)) = console empty_world \<and>
   onButtonWasPushed 3 (fst (RemoteLoaderWithUndo_new empty_world))
       (snd (RemoteLoaderWithUndo_new empty_world)) =
     Some (Inr ((fst (RemoteLoaderWithUndo_new empty_world))\<lparr>undoCommand := 6\<rparr>,
                snd (RemoteLoaderWithUndo_new empty_world))) \<and>
   offButtonWasPushed 3 (fst (RemoteLoaderWithUndo_new empty_world))
       (snd (RemoteLoaderWithUndo_new empty_world)) =
     Some (Inr ((fst (RemoteLoaderWithUndo_new empty_world))\<lparr>undoCommand := 7\<rparr>,
                snd (RemoteLoaderWithUndo_new empty_world)))"
  using default_slots_do_nothing [of 3 empty_world
      "fst (RemoteLoaderWithUndo_new empty_world)" "snd (RemoteLoaderWithUndo_new empty_world)"]
  by (auto simp add: RemoteLoaderWithUndo_new_eq empty_world_def)

text \<open>
  C8. Take a remote control from its constructor, bound any number of times with
  \<open>setCommand\<close> but with no button pushed yet. Its undo target is still the \<open>NoCommand\<close>
  object the constructor made. Pushing the undo button returns without error and changes
  neither the remote control nor the world: in the world the constructor left, and in
  every later world \<open>w2\<close> that still holds that object.
\<close>

lemma undoCommand_setCommands:
  "undoCommand (fold (\<lambda>(s, on, off). setCommand s on off) bs r) = undoCommand r"
  by (induction bs arbitrary: r) (auto simp add: setCommand_def)

theorem undo_before_any_trigger:
  assumes "RemoteLoaderWithUndo_new w = (r, w1)"
    and "r' = fold (\<lambda>(s, on, off). setCommand s on off) bindings r"
  shows "cmds w1 ! undoCommand r' = NoCommand \<and>
         undoButtonWasPushed r' w1 = Some (Inr (r', w1)) \<and>
         (cmds w2 ! undoCommand r' = NoCommand \<longrightarrow>
            undoButtonWasPushed r' w2 = Some (Inr (r', w2)))"
proof -
  have u: "undoCommand r' = undoCommand r"
    by (simp add: assms(2) undoCommand_setCommands)
  from assms(1) have "cmds w1 ! undoCommand r = NoCommand"
    by (auto simp add: RemoteLoaderWithUndo_new_eq nth_append)
  then show ?thesis
    by (simp add: u undoButtonWasPushed_def undo_NoCommand)
qed

theorem undo_before_any_trigger_witness:
  "loader_remote 14 =
     fold (\<lambda>(s, on, off). setCommand s on off) [(0, 15, 18), (1, 16, 18), (2, 17, 18)]
       (fst (RemoteLoaderWithUndo_new empty_world)) \<and>
   (cmds (snd (RemoteLoaderWithUndo_new empty_world)) ! 14 = NoCommand \<and>
    undoButtonWasPushed (loader_remote 14) (snd (RemoteLoaderWithUndo_new empty_world)) =
      Some (Inr (loader_remote 14, snd (RemoteLoaderWithUndo_new empty_world))) \<and>
    cmds (loader_world 0 0 0 []) ! 14 = NoCommand \<and>
    undoButtonWasPushed (loader_remote 14) (loader_world 0 0 0 []) =
      Some (Inr (loader_remote 14, loader_world 0 0 0 [])))"
proof
  show "loader_remote 14 =
     fold (\<lambda>(s, on, off). setCommand s on off) [(0, 15, 18), (1, 16, 18), (2, 17, 18)]
       (fst (RemoteLoaderWithUndo_new empty_world))"
    by (rule loader_remote_bindings)
  have "cmds (loader_world 0 0 0 []) ! 14 = NoCommand"
    by (simp add: loader_world_def nth_append)
  with undo_before_any_trigger [OF prod.collapse [symmetric] loader_remote_bindings,
      where ?w2.0 = "loader_world 0 0 0 []"]
  show "cmds (snd (RemoteLoaderWithUndo_new empty_world)) ! 14 = NoCommand \<and>
    undoButtonWasPushed (loader_remote 14) (snd (RemoteLoaderWithUndo_new empty_world)) =
      Some (Inr (loader_remote 14, snd (RemoteLoaderWithUndo_new empty_world))) \<and>
    cmds (loader_world 0 0 0 []) ! 14 = NoCommand \<and>
    undoButtonWasPushed (loader_remote 14) (loader_world 0 0 0 []) =
      Some (Inr (loader_remote 14, loader_world 0 0 0 []))"
    by (simp add: loader_slots)
qed

text \<open>
  C9. When the undo button returns, the remote control is the one it was called on: the
  slot tables and the undo target are untouched. The button did the \<open>undo\<close> of the undo
  target, and a second push does the \<open>undo\<close> of the same command again, in the world the
  first push left. In the witness the off command had taken its snapshot at medium; both
  pushes put the fan on medium.
\<close>

theorem undo_button_leaves_remote:
  assumes "undoButtonWasPushed r w = Some (Inr (r1, w1))"
  shows "r1 = r \<and> undo (undoCommand r) w = Some w1 \<and>
         undoButtonWasPushed r1 w1 = map_option (\<lambda>w2. Inr (r, w2)) (undo (undoCommand r) w1)"
  using assms by (auto simp add: undoButtonWasPushed_def split: option.splits)

theorem undo_button_leaves_remote_witness:
  "offButtonWasPushed 0 (loader_remote 15)
       (loader_world 2 0 0 [''Living Room ceiling fan is on medium'']) =
     Some (Inr (loader_remote 18, loader_world 0 0 2
       [''Living Room ceiling fan is on medium'', ''Living Room ceiling fan is off''])) \<and>
   undoButtonWasPushed (loader_remote 18) (loader_world 0 0 2
       [''Living Room ceiling fan is on medium'', ''Living Room ceiling fan is off'']) =
     Some (Inr (loader_remote 18, loader_world 2 0 2
       [''Living Room ceiling fan is on medium'', ''Living Room ceiling fan is off'',
        ''Living Room ceiling fan is on medium''])) \<and>
   undoButtonWasPushed (loader_remote 18) (loader_world 2 0 2
       [''Living Room ceiling fan is on medium'', ''Living Room ceiling fan is off'',
        ''Living Room ceiling fan is on medium'']) =
     Some (Inr (loader_remote 18, loader_world 2 0 2
       [''Living Room ceiling fan is on medium'', ''Living Room ceiling fan is off'',
        ''Living Room ceiling fan is on medium'', ''Living Room ceiling fan is on medium'']))"
  using
    undo_button_leaves_remote [where r = "loader_remote 18"
      and w = "loader_world 0 0 2
       [''Living Room ceiling fan is on medium'', ''Living Room ceiling fan is off'']"
      and ?r1.0 = "loader_remote 18"
      and ?w1.0 = "loader_world 2 0 2
       [''Living Room ceiling fan is on medium'', ''Living Room ceiling fan is off'',
        ''Living Room ceiling fan is on medium'']"]
  by (simp add: loader_slots loader_off_0 loader_undo_off offButtonWasPushed_def
      undoButtonWasPushed_def)


text \<open>
  C3. A button whose slot holds the command \<open>c\<close> does \<open>c.execute()\<close> and, when that
  returns, makes \<open>c\<close> the undo target; nothing else of the remote control changes. After
  the on button of slot 0 and then the on button of slot 1, the undo target is the
  command in the on table at slot 1, and the undo button does the \<open>undo\<close> of that command
  and nothing more. In the witness the fan goes to medium, then to high, and the undo
  button brings it back to medium, the snapshot of the high command.
\<close>

theorem last_executed_overwrite:
  "(aget (onCommands r) s = Some c \<longrightarrow>
      onButtonWasPushed s r w =
        map_option (\<lambda>w1. Inr (r\<lparr>undoCommand := c\<rparr>, w1)) (execute c w)) \<and>
   (aget (offCommands r) s = Some c \<longrightarrow>
      offButtonWasPushed s r w =
        map_option (\<lambda>w1. Inr (r\<lparr>undoCommand := c\<rparr>, w1)) (execute c w)) \<and>
   (onButtonWasPushed 0 r w = Some (Inr (r1, w1)) \<and>
    onButtonWasPushed 1 r1 w1 = Some (Inr (r2, w2)) \<longrightarrow>
      aget (onCommands r) 1 = Some (undoCommand r2) \<and>
      undoButtonWasPushed r2 w2 =
        map_option (\<lambda>w3. Inr (r2, w3)) (undo (undoCommand r2) w2))"
  by (auto simp add: onButtonWasPushed_def offButtonWasPushed_def undoButtonWasPushed_def
      split: option.splits)

theorem last_executed_overwrite_witness:
  "aget (onCommands (loader_remote 14)) 0 = Some 15 \<and>
   aget (onCommands (loader_remote 14)) 1 = Some 16 \<and>
   onButtonWasPushed 0 (loader_remote 14) (loader_world 0 0 0 []) =
     Some (Inr (loader_remote 15,
       loader_world 2 0 0 [''Living Room ceiling fan is on medium''])) \<and>
   onButtonWasPushed 1 (loader_remote 15)
       (loader_world 2 0 0 [''Living Room ceiling fan is on medium'']) =
     Some (Inr (loader_remote 16, loader_world 3 2 0
       [''Living Room ceiling fan is on medium'', ''Living Room ceiling fan is on high''])) \<and>
   undoButtonWasPushed (loader_remote 16) (loader_world 3 2 0
       [''Living Room ceiling fan is on medium'', ''Living Room ceiling fan is on high'']) =
     Some (Inr (loader_remote 16, loader_world 2 2 0
       [''Living Room ceiling fan is on medium'', ''Living Room ceiling fan is on high'',
        ''Living Room ceiling fan is on medium'']))"
  using
    last_executed_overwrite [where r = "loader_remote 14" and s = 0 and c = 15
      and w = "loader_world 0 0 0 []"
      and ?r1.0 = "loader_remote 15"
      and ?w1.0 = "loader_world 2 0 0 [''Living Room ceiling fan is on medium'']"
      and ?r2.0 = "loader_remote 16"
      and ?w2.0 = "loader_world 3 2 0
       [''Living Room ceiling fan is on medium'', ''Living Room ceiling fan is on high'']"]
    last_executed_overwrite [where r = "loader_remote 15" and s = 1 and c = 16
      and w = "loader_world 2 0 0 [''Living Room ceiling fan is on medium'']"]
  by (simp add: loader_slots loader_on_0 loader_on_1 loader_undo_1)


text \<open>
  C5, as the program has it. \<open>setCommand\<close> makes no range check and cannot fail. For every
  integral slot \<open>s\<close> it stores the two commands under \<open>s\<close> in the two tables and leaves every
  other slot and the undo target alone. The length of a table stays when \<open>s\<close> is below it
  or negative, and becomes \<open>s + 1\<close> when \<open>s\<close> is an array index at or beyond it.
\<close>

theorem setCommand_any_slot:
  "aget (onCommands (setCommand s on off r)) s = Some on \<and>
   aget (offCommands (setCommand s on off r)) s = Some off \<and>
   undoCommand (setCommand s on off r) = undoCommand r \<and>
   (\<forall>t. t \<noteq> s \<longrightarrow>
      aget (onCommands (setCommand s on off r)) t = aget (onCommands r) t \<and>
      aget (offCommands (setCommand s on off r)) t = aget (offCommands r) t) \<and>
   (0 \<le> s \<and> s < int (alength (onCommands r)) \<longrightarrow>
      alength (onCommands (setCommand s on off r)) = alength (onCommands r)) \<and>
   (0 \<le> s \<and> s < int (alength (offCommands r)) \<longrightarrow>
      alength (offCommands (setCommand s on off r)) = alength (offCommands r)) \<and>
   (int (alength (onCommands r)) \<le> s \<and> s < 2 ^ 32 - 1 \<longrightarrow>
      alength (onCommands (setCommand s on off r)) = nat s + 1) \<and>
   (int (alength (offCommands r)) \<le> s \<and> s < 2 ^ 32 - 1 \<longrightarrow>
      alength (offCommands (setCommand s on off r)) = nat s + 1) \<and>
   (s < 0 \<longrightarrow>
      alength (onCommands (setCommand s on off r)) = alength (onCommands r) \<and>
      alength (offCommands (setCommand s on off r)) = alength (offCommands r))"
  by (auto simp add: setCommand_def aset_def)

theorem setCommand_any_slot_witness:
  "aget (onCommands (setCommand 2 17 18 (fst (RemoteLoaderWithUndo_new empty_world)))) 2 = Some 17 \<and>
   aget (offCommands (setCommand 2 17 18 (fst (RemoteLoaderWithUndo_new empty_world)))) 2 = Some 18 \<and>
   aget (onCommands (setCommand 2 17 18 (fst (RemoteLoaderWithUndo_new empty_world)))) 3 = Some 6 \<and>
   alength (onCommands (setCommand 2 17 18 (fst (RemoteLoaderWithUndo_new empty_world)))) = 7 \<and>
   alength (offCommands (setCommand 2 17 18 (fst (RemoteLoaderWithUndo_new empty_world)))) = 7 \<and>
   aget (onCommands (setCommand 9 17 18 (fst (RemoteLoaderWithUndo_new empty_world)))) 9 = Some 17 \<and>
   alength (onCommands (setCommand 9 17 18 (fst (RemoteLoaderWithUndo_new empty_world)))) = 10 \<and>
   alength (offCommands (setCommand 9 17 18 (fst (RemoteLoaderWithUndo_new empty_world)))) = 10 \<and>
   aget (onCommands (setCommand (- 1) 17 18 (fst (RemoteLoaderWithUndo_new empty_world)))) (- 1) = Some 17 \<and>
   alength (onCommands (setCommand (- 1) 17 18 (fst (RemoteLoaderWithUndo_new empty_world)))) = 7 \<and>
   alength (offCommands (setCommand (- 1) 17 18 (fst (RemoteLoaderWithUndo_new empty_world)))) = 7"
  using
    setCommand_any_slot [of 2 17 18 "fst (RemoteLoaderWithUndo_new empty_world)"]
    setCommand_any_slot [of 9 17 18 "fst (RemoteLoaderWithUndo_new empty_world)"]
    setCommand_any_slot [of "- 1" 17 18 "fst (RemoteLoaderWithUndo_new empty_world)"]
  by (simp add: RemoteLoaderWithUndo_new_eq empty_world_def setCommand_def aset_def)

text \<open>
  C5, as the claim has it, fails: on a fresh remote control with 7 slots, \<open>setCommand\<close>
  at slot 7 binds both commands and the tables grow to length 8. \<open>RemoteControl\<close> starts
  with empty tables and is filled in the same way, so its first binding at slot 0 is
  already beyond the length.
\<close>

theorem setCommand_out_of_range_counterexample:
  "alength (onCommands (fst (RemoteLoaderWithUndo_new empty_world))) = 7 \<and>
   alength (offCommands (fst (RemoteLoaderWithUndo_new empty_world))) = 7 \<and>
   aget (onCommands (setCommand 7 15 18 (fst (RemoteLoaderWithUndo_new empty_world)))) 7 = Some 15 \<and>
   aget (offCommands (setCommand 7 15 18 (fst (RemoteLoaderWithUndo_new empty_world)))) 7 = Some 18 \<and>
   alength (onCommands (setCommand 7 15 18 (fst (RemoteLoaderWithUndo_new empty_world)))) = 8 \<and>
   alength (offCommands (setCommand 7 15 18 (fst (RemoteLoaderWithUndo_new empty_world)))) = 8 \<and>
   alength (RemoteControl.onCommands RemoteControl_new) = 0 \<and>
   aget (RemoteControl.onCommands (RemoteControl_setCommand 0 15 18 RemoteControl_new)) 0 = Some 15 \<and>
   alength (RemoteControl.onCommands (RemoteControl_setCommand 0 15 18 RemoteControl_new)) = 1"
  by (simp add: RemoteLoaderWithUndo_new_eq setCommand_def aset_def RemoteControl_new_def
      RemoteControl_setCommand_def empty_array_def)

section \<open>The speeds stay closed\<close>

lemma closed_world_empty: "closed_world empty_world"
  by (simp add: closed_world_def empty_world_def)

lemma Command_closed_mono: "Command_closed n c \<Longrightarrow> n \<le> m \<Longrightarrow> Command_closed m c"
  by (cases c) auto

lemma closed_CeilingFan_new:
  assumes "closed_world w"
  shows "closed_world (snd (CeilingFan_new loc w))"
  using assms
  by (auto simp add: closed_world_def CeilingFan_new_def speed_closed_def list_all_iff
      intro: Command_closed_mono)

lemma closed_Light_new: "closed_world w \<Longrightarrow> closed_world (snd (Light_new loc w))"
  by (simp add: closed_world_def Light_new_def)

lemma closed_console_log: "closed_world (console_log s w) = closed_world w"
  by (simp add: closed_world_def console_log_def)

lemma closed_set_speed:
  assumes "closed_world w" and "speed_closed a"
  shows "closed_world (w\<lparr>fans := (fans w)[f := (fans w ! f)\<lparr>speed := a\<rparr>]\<rparr>)"
proof -
  have "\<forall>fan \<in> set ((fans w)[f := (fans w ! f)\<lparr>speed := a\<rparr>]). speed_closed (speed fan)"
  proof
    fix fan assume "fan \<in> set ((fans w)[f := (fans w ! f)\<lparr>speed := a\<rparr>])"
    then have "fan = (fans w ! f)\<lparr>speed := a\<rparr> \<or> fan \<in> set (fans w)"
      using set_update_subset_insert by fastforce
    then show "speed_closed (speed fan)"
      using assms by (auto simp add: closed_world_def list_all_iff)
  qed
  then show ?thesis using assms(1) by (simp add: closed_world_def list_all_iff)
qed

lemma closed_transitions:
  assumes "closed_world w"
  shows "closed_world (CeilingFan_high f w)" and "closed_world (CeilingFan_medium f w)"
    and "closed_world (CeilingFan_low f w)" and "closed_world (CeilingFan_off f w)"
  using assms
  by (simp_all add: CeilingFan_high_def CeilingFan_medium_def CeilingFan_low_def
      CeilingFan_off_def Let_def closed_console_log closed_set_speed speed_closed_def)

lemma closed_new_Command:
  assumes "closed_world w" and "Command_closed (length (fans w)) c"
  shows "closed_world (snd (new_Command c w))"
  using assms by (simp add: closed_world_def new_Command_def)

lemma closed_getSpeed:
  "closed_world w \<Longrightarrow> f < length (fans w) \<Longrightarrow> speed_closed (CeilingFan_getSpeed f w)"
  by (simp add: closed_world_def CeilingFan_getSpeed_def list_all_length)

lemma closed_store_Command:
  assumes "closed_world w" and "Command_closed (length (fans w)) c"
  shows "closed_world (w\<lparr>cmds := (cmds w)[this := c]\<rparr>)"
proof -
  have "\<forall>x \<in> set ((cmds w)[this := c]). Command_closed (length (fans w)) x"
  proof
    fix x assume "x \<in> set ((cmds w)[this := c])"
    then have "x = c \<or> x \<in> set (cmds w)"
      using set_update_subset_insert by fastforce
    then show "Command_closed (length (fans w)) x"
      using assms by (auto simp add: closed_world_def list_all_iff)
  qed
  then show ?thesis using assms(1) by (simp add: closed_world_def list_all_iff)
qed

lemma closed_lookup:
  "closed_world w \<Longrightarrow> this < length (cmds w) \<Longrightarrow> Command_closed (length (fans w)) (cmds w ! this)"
  by (simp add: closed_world_def list_all_length)

lemma closed_execute_bodies:
  assumes "closed_world w"
  shows "cmds w ! this = CeilingFanMediumCommand f p \<Longrightarrow>
           closed_world (CeilingFanMediumCommand_execute this f w)"
    and "cmds w ! this = CeilingFanHighCommand f p \<Longrightarrow>
           closed_world (CeilingFanHighCommand_execute this f w)"
    and "cmds w ! this = CeilingFanLowCommand f p \<Longrightarrow>
           closed_world (CeilingFanLowCommand_execute this f w)"
    and "cmds w ! this = CeilingFanOffCommand f p \<Longrightarrow>
           closed_world (CeilingFanOffCommand_execute this f w)"
proof -
  have stored: "closed_world (w\<lparr>cmds := (cmds w)[this := c]\<rparr>)"
    if "this < length (cmds w) \<Longrightarrow> Command_closed (length (fans w)) c" for c
  proof (cases "this < length (cmds w)")
    case True
    then show ?thesis using assms that by (simp add: closed_store_Command)
  next
    case False
    then show ?thesis using assms by (simp add: closed_world_def list_update_beyond not_less)
  qed
  have fan: "f < length (fans w) \<and> speed_closed (CeilingFan_getSpeed f w)"
    if "this < length (cmds w)" and "ceilingFan (cmds w ! this) = f"
      and "Command_closed (length (fans w)) (cmds w ! this) \<longrightarrow> f < length (fans w)"
  proof -
    from closed_lookup [OF assms that(1)] that(3) have "f < length (fans w)" by simp
    then show ?thesis using assms by (simp add: closed_getSpeed)
  qed
  show "cmds w ! this = CeilingFanMediumCommand f p \<Longrightarrow>
           closed_world (CeilingFanMediumCommand_execute this f w)"
    unfolding CeilingFanMediumCommand_execute_def
    by (intro closed_transitions stored) (use fan in simp)
  show "cmds w ! this = CeilingFanHighCommand f p \<Longrightarrow>
           closed_world (CeilingFanHighCommand_execute this f w)"
    unfolding CeilingFanHighCommand_execute_def
    by (intro closed_transitions stored) (use fan in simp)
  show "cmds w ! this = CeilingFanLowCommand f p \<Longrightarrow>
           closed_world (CeilingFanLowCommand_execute this f w)"
    unfolding CeilingFanLowCommand_execute_def
    by (intro closed_transitions stored) (use fan in simp)
  show "cmds w ! this = CeilingFanOffCommand f p \<Longrightarrow>
           closed_world (CeilingFanOffCommand_execute this f w)"
    unfolding CeilingFanOffCommand_execute_def
    by (intro closed_transitions stored) (use fan in simp)
qed

lemma closed_undo_bodies:
  assumes "closed_world w"
  shows "closed_world (CeilingFanMediumCommand_undo f p w)"
    and "closed_world (CeilingFanHighCommand_undo f p w)"
    and "closed_world (CeilingFanLowCommand_undo f p w)"
    and "closed_world (CeilingFanOffCommand_undo f p w)"
  using assms
  by (simp_all add: CeilingFanMediumCommand_undo_def CeilingFanHighCommand_undo_def
      CeilingFanLowCommand_undo_def CeilingFanOffCommand_undo_def closed_transitions)

lemma closed_binary_bodies:
  "closed_world (LightOffCommand_execute l w) = closed_world w"
  "closed_world (LightOffCommand_undo l w) = closed_world w"
  "closed_world (StereoOnWithCDCommand_execute s w) = closed_world w"
  "closed_world (StereoOnWithCDCommand_undo s w) = closed_world w"
  by (simp_all add: LightOffCommand_execute_def LightOffCommand_undo_def Light_off_def
      Light_on_def StereoOnWithCDCommand_execute_def StereoOnWithCDCommand_undo_def
      Stereo_on_def Stereo_off_def Stereo_setCD_def Stereo_setVolume_def closed_console_log)

lemma forEach_preserves:
  assumes "\<And>x s s'. P s \<Longrightarrow> f x s = Some s' \<Longrightarrow> P s'"
    and "P s" and "forEach xs f s = Some s'"
  shows "P s'"
  using assms(2,3)
proof (induction xs arbitrary: s)
  case Nil
  then show ?case by simp
next
  case (Cons x xs)
  from Cons.prems(2) obtain s1 where "f x s = Some s1" and "forEach xs f s1 = Some s'"
    by (auto simp add: bind_eq_Some_conv)
  with Cons.IH assms(1) Cons.prems(1) show ?case by blast
qed

lemma closed_execute:
  assumes "execute this w = Some w'" and "closed_world w"
  shows "closed_world w'"
  using assms
proof (induction rule: execute.raw_induct [rotated 1, consumes 1])
  case (1 exec this w w')
  show ?case
  proof (cases "cmds w ! this")
    case (MacroCommand cs)
    with "1.hyps" have "forEach cs exec w = Some w'" by simp
    with "1.IH" "1.prems" show ?thesis
      by (rule_tac forEach_preserves [where P = closed_world and f = exec]) auto
  qed (use "1.hyps" "1.prems" in \<open>auto simp add: closed_execute_bodies closed_binary_bodies\<close>)
qed

lemma closed_undo:
  assumes "undo this w = Some w'" and "closed_world w"
  shows "closed_world w'"
  using assms
proof (induction rule: undo.raw_induct [rotated 1, consumes 1])
  case (1 und this w w')
  show ?case
  proof (cases "cmds w ! this")
    case (MacroCommand cs)
    with "1.hyps" have "forEach cs und w = Some w'" by simp
    with "1.IH" "1.prems" show ?thesis
      by (rule_tac forEach_preserves [where P = closed_world and f = und]) auto
  qed (use "1.hyps" "1.prems" in \<open>auto simp add: closed_undo_bodies closed_binary_bodies\<close>)
qed

lemma closed_fan_command_constructors:
  assumes "closed_world w" and "f < length (fans w)"
  shows "closed_world (snd (CeilingFanMediumCommand_new f w))"
    and "closed_world (snd (CeilingFanHighCommand_new f w))"
    and "closed_world (snd (CeilingFanLowCommand_new f w))"
    and "closed_world (snd (CeilingFanOffCommand_new f w))"
  using assms
  by (simp_all add: CeilingFanMediumCommand_new_def CeilingFanHighCommand_new_def
      CeilingFanLowCommand_new_def CeilingFanOffCommand_new_def closed_new_Command
      closed_getSpeed)

lemma closed_other_constructors:
  assumes "closed_world w"
  shows "closed_world (snd (LightOffCommand_new l w))"
    and "closed_world (snd (StereoOnWithCDCommand_new s w))"
    and "closed_world (snd (NoCommand_new w))"
    and "closed_world (snd (MacroCommand_new cs w))"
  using assms
  by (simp_all add: LightOffCommand_new_def StereoOnWithCDCommand_new_def NoCommand_new_def
      MacroCommand_new_def closed_new_Command)

lemma undo_takes_a_branch:
  assumes "f < length (fans w)" and "speed_closed p"
  shows "speed (fans (CeilingFanMediumCommand_undo f p w) ! f) = p \<and>
         length (console (CeilingFanMediumCommand_undo f p w)) = Suc (length (console w))"
    and "speed (fans (CeilingFanHighCommand_undo f p w) ! f) = p \<and>
         length (console (CeilingFanHighCommand_undo f p w)) = Suc (length (console w))"
    and "speed (fans (CeilingFanLowCommand_undo f p w) ! f) = p \<and>
         length (console (CeilingFanLowCommand_undo f p w)) = Suc (length (console w))"
    and "speed (fans (CeilingFanOffCommand_undo f p w) ! f) = p \<and>
         length (console (CeilingFanOffCommand_undo f p w)) = Suc (length (console w))"
  using assms
  by (auto simp add: speed_closed_def CeilingFan_command_bodies CeilingFan_transitions
      CeilingFan_speeds Let_def)

lemma closed_RemoteLoaderWithUndo_new:
  "closed_world w \<Longrightarrow> closed_world (snd (RemoteLoaderWithUndo_new w))"
  by (simp add: RemoteLoaderWithUndo_new_eq closed_world_def list_all_iff)

lemma closed_buttons:
  assumes "closed_world w"
  shows "onButtonWasPushed s r w = Some (Inr (r1, w1)) \<Longrightarrow> closed_world w1"
    and "offButtonWasPushed s r w = Some (Inr (r1, w1)) \<Longrightarrow> closed_world w1"
    and "undoButtonWasPushed r w = Some (Inr (r1, w1)) \<Longrightarrow> closed_world w1"
  using assms
  by (auto simp add: onButtonWasPushed_def offButtonWasPushed_def undoButtonWasPushed_def
      split: option.splits dest: closed_execute closed_undo)

lemma closed_living_room_fan: "closed_world living_room_fan"
  by (simp add: living_room_fan_eq closed_world_def speed_closed_def CeilingFan_speeds)

text \<open>
  C10. The empty world is closed, and from a closed world: the \<open>CeilingFan\<close> constructor
  gives a closed world with the new fan at OFF; the four transitions give closed worlds;
  the four fan command constructors, given a fan that exists, give closed worlds;
  \<open>execute\<close> and \<open>undo\<close> of any command, macros included, give a closed world whenever they
  return. In a closed world a fan command's fan has one of the four speeds, its
  \<open>prevSpeed\<close> is one of the four, and its \<open>undo\<close> returns having taken one of the four
  branches: the fan is at \<open>prevSpeed\<close> and one line was reported.
\<close>

theorem speed_always_closed:
  "closed_world empty_world \<and>
   (closed_world w \<longrightarrow>
      closed_world (snd (CeilingFan_new loc w)) \<and>
      speed (fans (snd (CeilingFan_new loc w)) ! fst (CeilingFan_new loc w)) = CeilingFan_OFF \<and>
      closed_world (CeilingFan_high f w) \<and> closed_world (CeilingFan_medium f w) \<and>
      closed_world (CeilingFan_low f w) \<and> closed_world (CeilingFan_off f w) \<and>
      (f < length (fans w) \<longrightarrow>
         closed_world (snd (CeilingFanMediumCommand_new f w)) \<and>
         closed_world (snd (CeilingFanHighCommand_new f w)) \<and>
         closed_world (snd (CeilingFanLowCommand_new f w)) \<and>
         closed_world (snd (CeilingFanOffCommand_new f w))) \<and>
      (execute this w = Some w1 \<longrightarrow> closed_world w1) \<and>
      (undo this w = Some w2 \<longrightarrow> closed_world w2) \<and>
      (this < length (cmds w) \<and>
       cmds w ! this \<in> {CeilingFanHighCommand f p, CeilingFanMediumCommand f p,
                         CeilingFanLowCommand f p, CeilingFanOffCommand f p} \<longrightarrow>
         speed_closed (speed (fans w ! f)) \<and> speed_closed p \<and>
         (\<exists>w3. undo this w = Some w3 \<and> speed (fans w3 ! f) = p \<and>
               length (console w3) = Suc (length (console w)))))"
proof (intro conjI impI)
  show "closed_world empty_world" by (rule closed_world_empty)
next
  assume c: "closed_world w"
  show "closed_world (snd (CeilingFan_new loc w))" using c by (rule closed_CeilingFan_new)
  show "speed (fans (snd (CeilingFan_new loc w)) ! fst (CeilingFan_new loc w)) = CeilingFan_OFF"
    by (simp add: CeilingFan_new_def)
  show "closed_world (CeilingFan_high f w)" "closed_world (CeilingFan_medium f w)"
    "closed_world (CeilingFan_low f w)" "closed_world (CeilingFan_off f w)"
    using c by (rule closed_transitions)+
  {
    assume f: "f < length (fans w)"
    show "closed_world (snd (CeilingFanMediumCommand_new f w))"
      "closed_world (snd (CeilingFanHighCommand_new f w))"
      "closed_world (snd (CeilingFanLowCommand_new f w))"
      "closed_world (snd (CeilingFanOffCommand_new f w))"
      using c f by (rule closed_fan_command_constructors)+
  }
  {
    assume "execute this w = Some w1"
    then show "closed_world w1" using c by (rule closed_execute)
  }
  {
    assume "undo this w = Some w2"
    then show "closed_world w2" using c by (rule closed_undo)
  }
  {
    assume a: "this < length (cmds w) \<and>
       cmds w ! this \<in> {CeilingFanHighCommand f p, CeilingFanMediumCommand f p,
                         CeilingFanLowCommand f p, CeilingFanOffCommand f p}"
    with closed_lookup [OF c, of this] have fp: "f < length (fans w)" "speed_closed p"
      by auto
    show "speed_closed p" by (rule fp)
    show "speed_closed (speed (fans w ! f))"
      using closed_getSpeed [OF c fp(1)] by (simp add: CeilingFan_getSpeed_def)
    show "\<exists>w3. undo this w = Some w3 \<and> speed (fans w3 ! f) = p \<and>
               length (console w3) = Suc (length (console w))"
      using a undo_takes_a_branch [OF fp]
      by (auto simp add: undo_CeilingFanMediumCommand undo_CeilingFanHighCommand
          undo_CeilingFanLowCommand undo_CeilingFanOffCommand)
  }
qed

theorem speed_always_closed_witness:
  "closed_world living_room_fan \<and>
   (0::nat) < length (fans living_room_fan) \<and>
   (0::nat) < length (cmds living_room_fan) \<and>
   cmds living_room_fan ! 0 = CeilingFanHighCommand 0 0 \<and>
   closed_world (snd (CeilingFan_new ''Kitchen'' living_room_fan)) \<and>
   closed_world (CeilingFan_high 0 living_room_fan) \<and>
   closed_world (CeilingFan_medium 0 living_room_fan) \<and>
   closed_world (CeilingFan_low 0 living_room_fan) \<and>
   closed_world (CeilingFan_off 0 living_room_fan) \<and>
   closed_world (snd (CeilingFanMediumCommand_new 0 living_room_fan)) \<and>
   closed_world (snd (CeilingFanHighCommand_new 0 living_room_fan)) \<and>
   closed_world (snd (CeilingFanLowCommand_new 0 living_room_fan)) \<and>
   closed_world (snd (CeilingFanOffCommand_new 0 living_room_fan)) \<and>
   execute 0 living_room_fan = Some (CeilingFanHighCommand_execute 0 0 living_room_fan) \<and>
   closed_world (CeilingFanHighCommand_execute 0 0 living_room_fan) \<and>
   undo 0 living_room_fan = Some (CeilingFanHighCommand_undo 0 0 living_room_fan) \<and>
   closed_world (CeilingFanHighCommand_undo 0 0 living_room_fan) \<and>
   speed (fans (CeilingFanHighCommand_undo 0 0 living_room_fan) ! 0) = CeilingFan_OFF \<and>
   length (console (CeilingFanHighCommand_undo 0 0 living_room_fan)) =
     Suc (length (console living_room_fan))"
proof -
  have c: "cmds living_room_fan ! 0 = CeilingFanHighCommand 0 0"
    by (simp add: living_room_fan_eq)
  have e: "execute 0 living_room_fan = Some (CeilingFanHighCommand_execute 0 0 living_room_fan)"
    using c by (rule execute_CeilingFanHighCommand)
  have u: "undo 0 living_room_fan = Some (CeilingFanHighCommand_undo 0 0 living_room_fan)"
    using c by (rule undo_CeilingFanHighCommand)
  have l: "(0::nat) < length (fans living_room_fan)" "(0::nat) < length (cmds living_room_fan)"
    by (simp_all add: living_room_fan_eq)
  from speed_always_closed [where w = living_room_fan and loc = "''Kitchen''" and f = 0
      and this = 0 and p = 0
      and ?w1.0 = "CeilingFanHighCommand_execute 0 0 living_room_fan"
      and ?w2.0 = "CeilingFanHighCommand_undo 0 0 living_room_fan"]
    closed_living_room_fan c e u l
  show ?thesis by (simp add: CeilingFan_speeds)
qed

end
